theory Spec2Isabelle
  imports Main
begin

section \<open>SCIM permissions support: roles and entitlements of workspace groups\<close>

text \<open>
  A shallow embedding of \<^verbatim>\<open>databricks/labs/ucx/workspace_access/scim.py\<close>, the class
  \<^verbatim>\<open>ScimSupport\<close>. Every method that talks to the workspace takes the history of the run
  and returns the extended one; every exception is a value \<open>Inl\<close>.
\<close>

subsection \<open>Python values\<close>

text \<open>
  Values as \<^verbatim>\<open>json.loads\<close> builds them and \<^verbatim>\<open>json.dumps\<close> accepts them: \<^verbatim>\<open>None\<close>,
  booleans, integers, strings, lists, and dictionaries with string keys (kept as
  association lists in insertion order).
\<close>

datatype json =
    JNull
  | JBool bool
  | JInt int
  | JStr string
  | JArr "json list"
  | JObj "(string \<times> json) list"

text \<open>
  An f-string is kept as its parts, in order: the literal text and the objects put
  between braces. \<open>Fmt v\<close> stands for Python's \<^verbatim>\<open>str(v)\<close>, which for a string is the
  string itself.
\<close>

datatype fpart = Lit string | Fmt json

type_synonym fstring = "fpart list"

subsection \<open>Exceptions\<close>

text \<open>
  The exception classes the module names or meets. \<^verbatim>\<open>PermissionDenied\<close>, \<^verbatim>\<open>NotFound\<close>
  and \<^verbatim>\<open>InternalError\<close> are subclasses of \<^verbatim>\<open>DatabricksError\<close>; every other error of the
  SDK is filed under \<open>DatabricksError\<close> itself. \<^verbatim>\<open>JSONDecodeError\<close> derives from
  \<^verbatim>\<open>ValueError\<close>. \<open>OtherException\<close> is any exception outside these families.
\<close>

datatype exn_class =
    PermissionDenied
  | NotFound
  | InternalError
  | DatabricksError
  | ValueError
  | JSONDecodeError
  | TypeError
  | AttributeError
  | OtherException

datatype error = Error exn_class fstring

fun issubclass :: "exn_class \<Rightarrow> exn_class \<Rightarrow> bool" where
  "issubclass PermissionDenied DatabricksError = True"
| "issubclass NotFound DatabricksError = True"
| "issubclass InternalError DatabricksError = True"
| "issubclass JSONDecodeError ValueError = True"
| "issubclass c k = (c = k)"

fun isinstance :: "error \<Rightarrow> exn_class \<Rightarrow> bool" where
  "isinstance (Error c m) k = issubclass c k"

subsection \<open>The SDK's data classes\<close>

text \<open>
  \<^verbatim>\<open>iam.ComplexValue\<close>: five optional fields. Python does not enforce the annotations
  (\<^verbatim>\<open>Optional[str]\<close>, \<^verbatim>\<open>Optional[bool]\<close>), so a field holds whatever value it was given,
  \<open>JNull\<close> for \<^verbatim>\<open>None\<close>. Two values are equal when their fields are: the data
  class's \<^verbatim>\<open>__eq__\<close>, which is what \<^verbatim>\<open>elem in group.roles\<close> uses.
\<close>

record ComplexValue =
  display :: json
  primary :: json
  ref :: json
  type_cv :: json
  value_cv :: json

definition entry :: "string \<Rightarrow> json \<Rightarrow> (string \<times> json) list" where
  \<comment> \<open>\<^verbatim>\<open>if self.f is not None: body[k] = self.f\<close>\<close>
  "entry k v = (if v = JNull then [] else [(k, v)])"

definition as_dict :: "ComplexValue \<Rightarrow> json" where
  "as_dict e = JObj (entry ''display'' (display e) @ entry ''primary'' (primary e)
     @ entry ''$ref'' (ref e) @ entry ''type'' (type_cv e) @ entry ''value'' (value_cv e))"

definition dict_get :: "(string \<times> json) list \<Rightarrow> string \<Rightarrow> json" where
  \<comment> \<open>\<^verbatim>\<open>d.get(k, None)\<close>\<close>
  "dict_get d k = (case map_of d k of None \<Rightarrow> JNull | Some v \<Rightarrow> v)"

fun from_dict :: "json \<Rightarrow> error + ComplexValue" where
  "from_dict (JObj d) = Inr \<lparr>display = dict_get d ''display'', primary = dict_get d ''primary'',
     ref = dict_get d ''$ref'', type_cv = dict_get d ''type'', value_cv = dict_get d ''value''\<rparr>"
| "from_dict v = Inl (Error AttributeError [Lit ''object has no attribute get'', Fmt v])"

text \<open>
  \<^verbatim>\<open>iam.Group\<close>, with the fields this module reads or asks the service for, and
  \<^verbatim>\<open>iam.ResourceMeta\<close>.
\<close>

record ResourceMeta =
  resource_type :: json

record Group =
  id_g :: string
  display_name :: "string option"
  roles :: "ComplexValue list option"
  entitlements :: "ComplexValue list option"
  members :: "ComplexValue list option"
  meta :: "ResourceMeta option"

definition truthy :: "'a list option \<Rightarrow> bool" where
  \<comment> \<open>the truth value of an optional list: neither \<^verbatim>\<open>None\<close> nor empty\<close>
  "truthy xs = (case xs of None \<Rightarrow> False | Some [] \<Rightarrow> False | Some (y # ys) \<Rightarrow> True)"

definition items :: "'a list option \<Rightarrow> 'a list" where
  "items xs = (case xs of None \<Rightarrow> [] | Some ys \<Rightarrow> ys)"

definition list_entry :: "string \<Rightarrow> ComplexValue list option \<Rightarrow> (string \<times> json) list" where
  \<comment> \<open>\<^verbatim>\<open>if self.f: body[k] = [v.as_dict() for v in self.f]\<close>\<close>
  "list_entry k xs = (if truthy xs then [(k, JArr (map as_dict (items xs)))] else [])"

definition Group_as_dict :: "Group \<Rightarrow> json" where
  "Group_as_dict g = JObj (
       (case display_name g of None \<Rightarrow> [] | Some n \<Rightarrow> [(''displayName'', JStr n)])
     @ list_entry ''entitlements'' (entitlements g)
     @ [(''id'', JStr (id_g g))]
     @ list_entry ''members'' (members g)
     @ (case meta g of None \<Rightarrow> [] | Some m \<Rightarrow> [(''meta'', JObj (entry ''resourceType'' (resource_type m)))])
     @ list_entry ''roles'' (roles g))"

datatype PatchOp = ADD | REMOVE | REPLACE

datatype PatchSchema = URN_IETF_PARAMS_SCIM_API_MESSAGES_2_0_PATCH_OP

record Patch =
  op :: PatchOp
  path :: string
  value_p :: json

subsection \<open>The run's history and the workspace client\<close>

text \<open>
  What a run does to the outside is kept in order: the calls to the workspace API, the
  passes through a rate limiter (with the limiter's ceiling and window), the sleeps
  between retries and the log records.
\<close>

datatype event =
    GroupsList string
  | GroupsGet string
  | GroupsPatch string "Patch list" "PatchSchema list"
  | Throttle nat nat
  | Sleep nat
  | LogWarning fstring
  | LogInfo fstring

type_synonym world = "event list"

text \<open>
  \<^verbatim>\<open>WorkspaceClient.groups\<close>: the service is not part of the program, so each answer is
  an arbitrary function of the history so far and of the call's arguments. \<^verbatim>\<open>patch\<close>
  answers with the SDK's return value.
\<close>

record WorkspaceClient =
  groups_list :: "world \<Rightarrow> string \<Rightarrow> error + Group list"
  groups_get :: "world \<Rightarrow> string \<Rightarrow> error + Group"
  groups_patch :: "world \<Rightarrow> string \<Rightarrow> Patch list \<Rightarrow> PatchSchema list \<Rightarrow> error + json"

definition ws_groups_list :: "WorkspaceClient \<Rightarrow> string \<Rightarrow> world \<Rightarrow> (error + Group list) \<times> world" where
  "ws_groups_list c attributes w = (groups_list c w attributes, w @ [GroupsList attributes])"

definition ws_groups_get :: "WorkspaceClient \<Rightarrow> string \<Rightarrow> world \<Rightarrow> (error + Group) \<times> world" where
  "ws_groups_get c group_id w = (groups_get c w group_id, w @ [GroupsGet group_id])"

definition ws_groups_patch ::
  "WorkspaceClient \<Rightarrow> string \<Rightarrow> Patch list \<Rightarrow> PatchSchema list \<Rightarrow> world \<Rightarrow> (error + json) \<times> world" where
  "ws_groups_patch c group_id operations schemas w =
     (groups_patch c w group_id operations schemas, w @ [GroupsPatch group_id operations schemas])"

subsection \<open>ScimSupport\<close>

text \<open>
  The object: the client and the verification timeout set by \<^verbatim>\<open>__init__\<close> (a
  \<^verbatim>\<open>timedelta\<close>, in seconds; the annotation also admits \<^verbatim>\<open>None\<close>, which is no duration
  and is left out), and the attribute \<^verbatim>\<open>_SYSTEM_GROUPS\<close>. The class reads this attribute,
  but neither its body nor \<^verbatim>\<open>__init__\<close> sets it: an object has it only if the base class
  \<^verbatim>\<open>AclSupport\<close>, which is not among the sources, provides it. \<open>None\<close> is an object
  without the attribute.
\<close>

record ScimSupport =
  ws :: WorkspaceClient
  verify_timeout :: nat
  SYSTEM_GROUPS :: "string list option"

definition default_verify_timeout :: nat where
  \<comment> \<open>\<^verbatim>\<open>timedelta(minutes=1)\<close>\<close>
  "default_verify_timeout = 1 * 60"

definition ScimSupport_init :: "WorkspaceClient \<Rightarrow> nat option \<Rightarrow> string list option \<Rightarrow> ScimSupport" where
  \<comment> \<open>\<open>timeout = None\<close>: the caller leaves \<^verbatim>\<open>verify_timeout\<close> out; \<open>sys\<close>: what the base class provides\<close>
  "ScimSupport_init c timeout sys = \<lparr>ws = c,
     verify_timeout = (case timeout of None \<Rightarrow> default_verify_timeout | Some t \<Rightarrow> t),
     SYSTEM_GROUPS = sys\<rparr>"

definition safe_patch_group ::
  "ScimSupport \<Rightarrow> string \<Rightarrow> Patch list \<Rightarrow> PatchSchema list \<Rightarrow> world \<Rightarrow> (error + json) \<times> world" where
  "safe_patch_group self group_id operations schemas w =
     (case ws_groups_patch (ws self) group_id operations schemas w of
        (Inr r, w') \<Rightarrow> (Inr r, w')
      | (Inl e, w') \<Rightarrow>
          if isinstance e PermissionDenied
          then (Inr JNull, w' @ [LogWarning [Lit ''permission denied: '', Fmt (JStr group_id)]])
          else if isinstance e NotFound
          then (Inr JNull, w' @ [LogWarning [Lit ''removed on backend: '', Fmt (JStr group_id)]])
          else (Inl e, w'))"

definition safe_get_group :: "ScimSupport \<Rightarrow> string \<Rightarrow> world \<Rightarrow> (error + Group option) \<times> world" where
  "safe_get_group self group_id w =
     (case ws_groups_get (ws self) group_id w of
        (Inr g, w') \<Rightarrow> (Inr (Some g), w')
      | (Inl e, w') \<Rightarrow>
          if isinstance e PermissionDenied
          then (Inr None, w' @ [LogWarning [Lit ''permission denied: '', Fmt (JStr group_id)]])
          else if isinstance e NotFound
          then (Inr None, w' @ [LogWarning [Lit ''removed on backend: '', Fmt (JStr group_id)]])
          else (Inl e, w'))"

subsection \<open>The helpers the class is built on\<close>

text \<open>
  Modelled from the spec: the retry helper \<^verbatim>\<open>retried(on=..., timeout=...)\<close> comes from the
  SDK and is not among the sources. The spec's Retry Policy: invoke the operation; on an
  error of one of the retryable kinds, sleep with backoff and retry as long as the
  elapsed time is under the timeout; once the timeout has elapsed, re-raise the most
  recent retryable error; propagate any other error at once; return the result on
  success. The clock is the time slept: the backoff is one second more per attempt, ten
  at most. (The SDK's helper ends a run whose deadline has passed with a
  \<^verbatim>\<open>TimeoutError\<close> chained to the last error; no property below rests on which of the two
  errors comes out.)
\<close>

definition retryable :: "exn_class list \<Rightarrow> error \<Rightarrow> bool" where
  "retryable kinds e = list_ex (isinstance e) kinds"

function retried_loop ::
  "exn_class list \<Rightarrow> nat \<Rightarrow> (world \<Rightarrow> (error + 'a) \<times> world) \<Rightarrow> nat \<Rightarrow> nat \<Rightarrow> world \<Rightarrow> (error + 'a) \<times> world" where
  "retried_loop kinds timeout f attempt elapsed w =
     (case f w of
        (Inr v, w') \<Rightarrow> (Inr v, w')
      | (Inl e, w') \<Rightarrow>
          if retryable kinds e \<and> elapsed < timeout
          then retried_loop kinds timeout f (Suc attempt) (elapsed + min 10 (Suc attempt))
                 (w' @ [Sleep (min 10 (Suc attempt))])
          else (Inl e, w'))"
  by pat_completeness auto
termination
  by (relation "measure (\<lambda>(kinds, timeout, f, attempt, elapsed, w). timeout - elapsed)") auto

declare retried_loop.simps [simp del]

definition retried ::
  "exn_class list \<Rightarrow> nat \<Rightarrow> (world \<Rightarrow> (error + 'a) \<times> world) \<Rightarrow> world \<Rightarrow> (error + 'a) \<times> world" where
  "retried kinds timeout f w = retried_loop kinds timeout f 0 0 w"

text \<open>
  Modelled from the spec: \<^verbatim>\<open>rate_limited(max_requests=..., burst_period_seconds=...)\<close> is
  defined in \<^verbatim>\<open>mixins/hardening.py\<close>, which is not among the sources. The spec's Throttle:
  the caller passes the limiter, which records the call, and then the wrapped function
  runs. The pass is recorded with the limiter's ceiling and window; how long it blocks
  is a matter of real time and is left out.
\<close>

definition rate_limited :: "nat \<Rightarrow> nat \<Rightarrow> (world \<Rightarrow> 'a \<times> world) \<Rightarrow> world \<Rightarrow> 'a \<times> world" where
  "rate_limited max_requests burst_period_seconds f w =
     f (w @ [Throttle max_requests burst_period_seconds])"

text \<open>
  What the module takes from libraries and this model takes as parameters: the two
  functions of \<^verbatim>\<open>json\<close>, and the timeout \<^verbatim>\<open>retried\<close> uses when it is given none.
\<close>

record Lib =
  json_dumps :: "json \<Rightarrow> string"
  json_loads :: "string \<Rightarrow> error + json"
  retried_default_timeout :: nat

text \<open>
  A call that passes one keyword argument \<open>k = v\<close> to a method whose only parameter
  besides \<^verbatim>\<open>self\<close> is named \<open>param\<close>: Python binds the argument when the names agree and
  raises \<^verbatim>\<open>TypeError\<close> before the body runs when they do not.
\<close>

definition call_keyword ::
  "string \<Rightarrow> (string \<Rightarrow> world \<Rightarrow> (error + 'a) \<times> world) \<Rightarrow> string \<Rightarrow> string \<Rightarrow> world \<Rightarrow> (error + 'a) \<times> world" where
  "call_keyword param f k v w =
     (if k = param then f v w
      else (Inl (Error TypeError [Lit ''got an unexpected keyword argument '', Fmt (JStr k)]), w))"

fun startswith :: "string \<Rightarrow> string \<Rightarrow> bool" where
  "startswith s [] = True"
| "startswith [] (p # ps) = False"
| "startswith (c # cs) (p # ps) = (c = p \<and> startswith cs ps)"

fun contains :: "string \<Rightarrow> string \<Rightarrow> bool" where
  \<comment> \<open>\<^verbatim>\<open>p in s\<close> on strings\<close>
  "contains p [] = (p = [])"
| "contains p (c # cs) = (startswith (c # cs) p \<or> contains p cs)"

subsection \<open>Crawling\<close>

definition no_system_groups :: error where
  "no_system_groups = Error AttributeError [Lit ''ScimSupport object has no attribute _SYSTEM_GROUPS'']"

definition is_group_out_of_scope :: "ScimSupport \<Rightarrow> Group \<Rightarrow> error + bool" where
  \<comment> \<open>reading \<^verbatim>\<open>self._SYSTEM_GROUPS\<close> raises when the object has no such attribute\<close>
  "is_group_out_of_scope self grp =
     (case SYSTEM_GROUPS self of
        None \<Rightarrow> Inl no_system_groups
      | Some names \<Rightarrow>
          Inr (case display_name grp of
                 None \<Rightarrow> False
               | Some n \<Rightarrow> if n \<in> set names then True else False))"

definition get_group_with_retries :: "Lib \<Rightarrow> ScimSupport \<Rightarrow> string \<Rightarrow> world \<Rightarrow> (error + Group) \<times> world" where
  "get_group_with_retries L self group_id =
     retried [InternalError] (retried_default_timeout L)
       (rate_limited 255 60 (ws_groups_get (ws self) group_id))"

text \<open>
  The two loops of \<^verbatim>\<open>_list_workspace_groups\<close>, over the groups the listing gave. The SDK
  lists lazily; here the listing is one call that returns all groups.
\<close>

fun fetch_all_attributes ::
  "Lib \<Rightarrow> ScimSupport \<Rightarrow> Group list \<Rightarrow> Group list \<Rightarrow> world \<Rightarrow> (error + Group list) \<times> world" where
  "fetch_all_attributes L self [] results w = (Inr results, w)"
| "fetch_all_attributes L self (g # gs) results w =
     (case is_group_out_of_scope self g of
        Inl e \<Rightarrow> (Inl e, w)
      | Inr out_of_scope \<Rightarrow>
          if out_of_scope then fetch_all_attributes L self gs results w
          else case get_group_with_retries L self (id_g g) w of
                 (Inl e, w') \<Rightarrow> (Inl e, w')
               | (Inr group_with_all_attributes, w') \<Rightarrow>
                   fetch_all_attributes L self gs (results @ [group_with_all_attributes]) w')"

fun keep_in_scope :: "ScimSupport \<Rightarrow> Group list \<Rightarrow> Group list \<Rightarrow> error + Group list" where
  "keep_in_scope self [] results = Inr results"
| "keep_in_scope self (g # gs) results =
     (case is_group_out_of_scope self g of
        Inl e \<Rightarrow> Inl e
      | Inr out_of_scope \<Rightarrow>
          if out_of_scope then keep_in_scope self gs results
          else keep_in_scope self gs (results @ [g]))"

definition found_groups :: "Group list \<Rightarrow> event" where
  "found_groups results = LogInfo [Lit ''Found '', Fmt (JInt (int (length results))), Lit '' groups'']"

definition list_workspace_groups ::
  "Lib \<Rightarrow> ScimSupport \<Rightarrow> string \<Rightarrow> world \<Rightarrow> (error + Group list) \<times> world" where
  "list_workspace_groups L self scim_attributes w0 =
     (let w = w0 @ [LogInfo [Lit ''Listing workspace groups with '', Fmt (JStr scim_attributes), Lit ''...'']]
      in if contains ''members'' scim_attributes \<or> contains ''roles'' scim_attributes
            \<or> contains ''entitlements'' scim_attributes
         then (case ws_groups_list (ws self) ''id,displayName,meta'' w of
                 (Inl e, w1) \<Rightarrow> (Inl e, w1)
               | (Inr gs, w1) \<Rightarrow>
                   (case fetch_all_attributes L self gs [] w1 of
                      (Inl e, w2) \<Rightarrow> (Inl e, w2)
                    | (Inr results, w2) \<Rightarrow> (Inr results, w2 @ [found_groups results])))
         else (case ws_groups_list (ws self) scim_attributes w of
                 (Inl e, w1) \<Rightarrow> (Inl e, w1)
               | (Inr gs, w1) \<Rightarrow>
                   (case keep_in_scope self gs [] of
                      Inl e \<Rightarrow> (Inl e, w1)
                    | Inr results \<Rightarrow> (Inr results, w1 @ [found_groups results]))))"

definition get_groups :: "Lib \<Rightarrow> ScimSupport \<Rightarrow> world \<Rightarrow> (error + Group list) \<times> world" where
  "get_groups L self =
     retried [DatabricksError] (retried_default_timeout L)
       (call_keyword ''scim_attributes'' (list_workspace_groups L self)
          ''attributes'' ''id,displayName,roles,entitlements'')"

text \<open>
  A crawler task is \<^verbatim>\<open>partial(self._crawler_task, g, property_name)\<close>: the bound
  arguments. \<open>crawler_tasks\<close> is the body of the generator \<^verbatim>\<open>get_crawler_tasks\<close> over the
  groups \<^verbatim>\<open>_get_groups\<close> returned, with the tasks in the order they are yielded.
\<close>

record crawler_partial =
  ct_group :: Group
  ct_property_name :: string

fun crawler_tasks :: "Group list \<Rightarrow> crawler_partial list" where
  "crawler_tasks [] = []"
| "crawler_tasks (g # gs) =
     (if truthy (roles g) \<and> length (items (roles g)) > 0
      then [\<lparr>ct_group = g, ct_property_name = ''roles''\<rparr>] else [])
   @ (if truthy (entitlements g) \<and> length (items (entitlements g)) > 0
      then [\<lparr>ct_group = g, ct_property_name = ''entitlements''\<rparr>] else [])
   @ crawler_tasks gs"

definition get_crawler_tasks :: "Lib \<Rightarrow> ScimSupport \<Rightarrow> world \<Rightarrow> (error + crawler_partial list) \<times> world" where
  "get_crawler_tasks L self w =
     (case get_groups L self w of
        (Inl e, w') \<Rightarrow> (Inl e, w')
      | (Inr gs, w') \<Rightarrow> (Inr (crawler_tasks gs), w'))"

definition object_types :: "string set" where
  "object_types = {''roles'', ''entitlements''}"

record Permissions =
  object_id :: string
  object_type :: string
  raw :: string

text \<open>
  \<^verbatim>\<open>for e in getattr(group, property_name)\<close> with \<^verbatim>\<open>e.as_dict()\<close> on each element: the
  elements the loop runs over, or the exception it ends with. A list that is \<^verbatim>\<open>None\<close> is
  not iterable; a string iterates over its characters, which have no \<^verbatim>\<open>as_dict\<close>; a
  name that is no field of the record is a missing attribute.
\<close>

definition not_iterable :: "string \<Rightarrow> error" where
  "not_iterable what = Error TypeError [Lit what, Lit '' object is not iterable'']"

definition no_as_dict :: error where
  "no_as_dict = Error AttributeError [Lit ''str object has no attribute as_dict'']"

definition getattr_elements :: "Group \<Rightarrow> string \<Rightarrow> error + ComplexValue list" where
  "getattr_elements grp property_name =
     (if property_name = ''roles'' \<or> property_name = ''entitlements'' \<or> property_name = ''members''
      then (case (if property_name = ''roles'' then roles grp
                  else if property_name = ''entitlements'' then entitlements grp
                  else members grp) of
              None \<Rightarrow> Inl (not_iterable ''NoneType'')
            | Some xs \<Rightarrow> Inr xs)
      else if property_name = ''id''
      then (if id_g grp = [] then Inr [] else Inl no_as_dict)
      else if property_name = ''display_name''
      then (case display_name grp of
              None \<Rightarrow> Inl (not_iterable ''NoneType'')
            | Some n \<Rightarrow> if n = [] then Inr [] else Inl no_as_dict)
      else if property_name = ''meta''
      then Inl (not_iterable (case meta grp of None \<Rightarrow> ''NoneType'' | Some m \<Rightarrow> ''ResourceMeta''))
      else Inl (Error AttributeError [Lit ''Group object has no attribute '', Fmt (JStr property_name)]))"

definition crawler_task :: "Lib \<Rightarrow> Group \<Rightarrow> string \<Rightarrow> error + Permissions" where
  "crawler_task L grp property_name =
     (case getattr_elements grp property_name of
        Inl e \<Rightarrow> Inl e
      | Inr xs \<Rightarrow> Inr \<lparr>object_id = id_g grp, object_type = property_name,
                        raw = json_dumps L (JArr (map as_dict xs))\<rparr>)"

definition run_crawler_task :: "Lib \<Rightarrow> crawler_partial \<Rightarrow> error + Permissions" where
  "run_crawler_task L t = crawler_task L (ct_group t) (ct_property_name t)"

subsection \<open>Applying\<close>

text \<open>
  \<^verbatim>\<open>MigrationState\<close> and its groups are defined in \<^verbatim>\<open>workspace_access/groups.py\<close>, which
  is not among the sources: the record has what this module reads, the list of groups
  with their \<^verbatim>\<open>id_in_workspace\<close>, and the method \<^verbatim>\<open>get_target_id\<close> as a parameter.
\<close>

record MigratedGroup =
  id_in_workspace :: string

record MigrationState =
  groups :: "MigratedGroup list"
  get_target_id :: "string \<Rightarrow> string"

definition is_item_relevant :: "Permissions \<Rightarrow> MigrationState \<Rightarrow> bool" where
  "is_item_relevant item migration_state =
     list_ex (\<lambda>g. id_in_workspace g = object_id item) (groups migration_state)"

fun iterate :: "json \<Rightarrow> error + json list" where
  \<comment> \<open>\<^verbatim>\<open>for e in v\<close>: a dictionary gives its keys, a string its characters\<close>
  "iterate (JArr xs) = Inr xs"
| "iterate (JObj d) = Inr (map (\<lambda>kv. JStr (fst kv)) d)"
| "iterate (JStr s) = Inr (map (\<lambda>c. JStr [c]) s)"
| "iterate v = Inl (Error TypeError [Fmt v, Lit '' object is not iterable''])"

fun from_dicts :: "json list \<Rightarrow> error + ComplexValue list" where
  "from_dicts [] = Inr []"
| "from_dicts (e # es) =
     (case from_dict e of
        Inl x \<Rightarrow> Inl x
      | Inr v \<Rightarrow> (case from_dicts es of Inl x \<Rightarrow> Inl x | Inr vs \<Rightarrow> Inr (v # vs)))"

definition load_value :: "Lib \<Rightarrow> string \<Rightarrow> error + ComplexValue list" where
  \<comment> \<open>\<^verbatim>\<open>[iam.ComplexValue.from_dict(e) for e in json.loads(raw)]\<close>\<close>
  "load_value L text =
     (case json_loads L text of
        Inl x \<Rightarrow> Inl x
      | Inr doc \<Rightarrow> (case iterate doc of Inl x \<Rightarrow> Inl x | Inr es \<Rightarrow> from_dicts es))"

text \<open>
  An apply task is \<^verbatim>\<open>partial(self._applier_task, group_id=..., value=...,
  property_name=...)\<close>: the bound arguments.
\<close>

record applier_partial =
  at_group_id :: string
  at_value :: "ComplexValue list"
  at_property_name :: string

definition get_apply_task ::
  "Lib \<Rightarrow> ScimSupport \<Rightarrow> Permissions \<Rightarrow> MigrationState \<Rightarrow> world \<Rightarrow> (error + applier_partial option) \<times> world" where
  "get_apply_task L self item migration_state w =
     (if \<not> is_item_relevant item migration_state then (Inr None, w)
      else case load_value L (raw item) of
             Inl e \<Rightarrow> (Inl e, w)
           | Inr v \<Rightarrow>
               (let target_group_id = get_target_id migration_state (object_id item)
                in (Inr (Some \<lparr>at_group_id = target_group_id, at_value = v,
                                at_property_name = object_type item\<rparr>), w)))"

definition not_applied :: "string \<Rightarrow> ComplexValue list \<Rightarrow> Group \<Rightarrow> fstring" where
  \<comment> \<open>the message of the \<^verbatim>\<open>ValueError\<close>; a line break and 28 blanks stand between its lines\<close>
  "not_applied group_id v grp =
     [Lit ''Couldn't apply appropriate role for group '', Fmt (JStr group_id),
      Lit (CHR 0x0A # replicate 28 CHR '' '' @ ''acl to be applied=''), Fmt (JArr (map as_dict v)),
      Lit (CHR 0x0A # replicate 28 CHR '' '' @ ''acl found in the object=''), Fmt (Group_as_dict grp),
      Lit (CHR 0x0A # replicate 28 CHR '' '')]"

definition inflight_check ::
  "ScimSupport \<Rightarrow> string \<Rightarrow> ComplexValue list \<Rightarrow> string \<Rightarrow> world \<Rightarrow> (error + bool) \<times> world" where
  "inflight_check self group_id v property_name w =
     (case safe_get_group self group_id w of
        (Inl e, w') \<Rightarrow> (Inl e, w')
      | (Inr None, w') \<Rightarrow> (Inr False, w')
      | (Inr (Some grp), w') \<Rightarrow>
          if property_name = ''roles'' \<and> truthy (roles grp)
             \<and> list_all (\<lambda>elem. elem \<in> set (items (roles grp))) v
          then (Inr True, w')
          else if property_name = ''entitlements'' \<and> truthy (entitlements grp)
             \<and> list_all (\<lambda>elem. elem \<in> set (items (entitlements grp))) v
          then (Inr True, w')
          else (Inl (Error ValueError (not_applied group_id v grp)), w'))"

definition applier_task ::
  "ScimSupport \<Rightarrow> string \<Rightarrow> ComplexValue list \<Rightarrow> string \<Rightarrow> world \<Rightarrow> (error + bool) \<times> world" where
  "applier_task self group_id v property_name =
     rate_limited 10 60 (\<lambda>w.
       let operations = [\<lparr>op = ADD, path = property_name, value_p = JArr (map as_dict v)\<rparr>];
           schemas = [URN_IETF_PARAMS_SCIM_API_MESSAGES_2_0_PATCH_OP]
       in case retried [DatabricksError] (verify_timeout self)
                 (safe_patch_group self group_id operations schemas) w of
            (Inl e, w') \<Rightarrow> (Inl e, w')
          | (Inr patched, w') \<Rightarrow>
              retried [ValueError, DatabricksError] (verify_timeout self)
                (inflight_check self group_id v property_name) w')"


subsection \<open>Concrete workspaces\<close>

text \<open>
  The workspaces the properties below are run on. \<open>demo_service\<close> lists three groups,
  one of them a system group; it knows the groups \<open>G1\<close>, \<open>G2\<close> and \<open>G4\<close>, shows the role
  \<open>admin\<close> on \<open>G2\<close> once a patch of \<open>G2\<close> is in the history, and reports every other id
  as not found (a deleted group, \<open>G3\<close>).
\<close>

definition admin :: ComplexValue where
  "admin = \<lparr>display = JNull, primary = JNull, ref = JNull, type_cv = JNull, value_cv = JStr ''admin''\<rparr>"

definition a_group :: "string \<Rightarrow> string \<Rightarrow> ComplexValue list option \<Rightarrow> ComplexValue list option \<Rightarrow> Group" where
  "a_group i n rs es = \<lparr>id_g = i, display_name = Some n, roles = rs, entitlements = es,
     members = None, meta = None\<rparr>"

fun is_patch_of :: "string \<Rightarrow> event \<Rightarrow> bool" where
  "is_patch_of i (GroupsPatch j ops schemas) = (i = j)"
| "is_patch_of i ev = False"

fun is_get :: "event \<Rightarrow> bool" where
  "is_get (GroupsGet j) = True"
| "is_get ev = False"

fun is_patch :: "event \<Rightarrow> bool" where
  "is_patch (GroupsPatch j ops schemas) = True"
| "is_patch ev = False"

definition demo_service :: WorkspaceClient where
  "demo_service = \<lparr>
     groups_list = (\<lambda>w attributes. Inr [a_group ''G1'' ''analysts'' None None,
       a_group ''G0'' ''admins'' None None, a_group ''G4'' ''interns'' None None]),
     groups_get = (\<lambda>w i.
       if i = ''G1'' then Inr (a_group ''G1'' ''analysts'' (Some [admin]) None)
       else if i = ''G2'' then Inr (a_group ''G2'' ''analysts'' (if list_ex (is_patch_of ''G2'') w then Some [admin] else None) None)
       else if i = ''G4'' then Inr (a_group ''G4'' ''interns'' None (Some []))
       else Inl (Error NotFound [Lit ''no such group''])),
     groups_patch = (\<lambda>w i ops schemas.
       if i = ''G1'' \<or> i = ''G2'' \<or> i = ''G4'' then Inr JNull
       else Inl (Error NotFound [Lit ''no such group'']))\<rparr>"

text \<open>
  \<open>lagging_service\<close> fails the first patch with a transient error and shows the role only
  from the second read on; \<open>failing_service\<close> answers every call with an error: a stray
  exception for a patch and a listing, an access-denied error for a read.
\<close>

definition lagging_service :: WorkspaceClient where
  "lagging_service = \<lparr>
     groups_list = (\<lambda>w attributes. Inr []),
     groups_get = (\<lambda>w i.
       if list_ex is_get w then Inr (a_group i ''analysts'' (Some [admin]) None)
       else Inr (a_group i ''analysts'' None None)),
     groups_patch = (\<lambda>w i ops schemas.
       if list_ex is_patch w then Inr JNull
       else Inl (Error InternalError [Lit ''try again'']))\<rparr>"

definition failing_service :: WorkspaceClient where
  "failing_service = \<lparr>
     groups_list = (\<lambda>w attributes. Inl (Error OtherException [Lit ''connection reset''])),
     groups_get = (\<lambda>w i. Inl (Error PermissionDenied [Lit ''forbidden''])),
     groups_patch = (\<lambda>w i ops schemas. Inl (Error OtherException [Lit ''connection reset'']))\<rparr>"

text \<open>
  \<open>flaky_service\<close> answers the first read with an internal error and the later ones
  with the group.
\<close>

definition flaky_service :: WorkspaceClient where
  "flaky_service = \<lparr>
     groups_list = (\<lambda>w attributes. Inr [a_group ''G1'' ''analysts'' None None]),
     groups_get = (\<lambda>w i.
       if list_ex is_get w then Inr (a_group i ''analysts'' (Some [admin]) None)
       else Inl (Error InternalError [Lit ''try again''])),
     groups_patch = (\<lambda>w i ops schemas. Inr JNull)\<rparr>"

definition scim :: "WorkspaceClient \<Rightarrow> ScimSupport" where
  \<comment> \<open>\<^verbatim>\<open>ScimSupport(ws)\<close>, the class as \<^verbatim>\<open>scim.py\<close> has it: nothing provides \<^verbatim>\<open>_SYSTEM_GROUPS\<close>\<close>
  "scim c = ScimSupport_init c None None"

definition scim_with_system_groups :: "WorkspaceClient \<Rightarrow> ScimSupport" where
  \<comment> \<open>the same object when the base class provides the names of the system groups\<close>
  "scim_with_system_groups c = ScimSupport_init c None (Some [''users'', ''admins'', ''account users''])"

text \<open>
  Two values of \<^verbatim>\<open>json.dumps\<close> and \<^verbatim>\<open>json.loads\<close>: the text of the list with the role
  \<open>admin\<close>, and \<^verbatim>\<open>null\<close>. \<open>json_table\<close> knows these and no other text.
\<close>

definition admin_text :: string where
  "admin_text = ''[{'' @ [CHR 0x22] @ ''value'' @ [CHR 0x22] @ '': '' @ [CHR 0x22] @ ''admin'' @ [CHR 0x22] @ ''}]''"

definition json_table :: Lib where
  "json_table = \<lparr>
     json_dumps = (\<lambda>v. if v = JArr [JObj [(''value'', JStr ''admin'')]] then admin_text
                        else if v = JNull then ''null'' else ''[]''),
     json_loads = (\<lambda>t. if t = admin_text then Inr (JArr [JObj [(''value'', JStr ''admin'')]])
                        else if t = ''null'' then Inr JNull
                        else if t = ''[]'' then Inr (JArr [])
                        else Inl (Error JSONDecodeError [Lit ''Expecting value''])),
     retried_default_timeout = 20 * 60\<rparr>"

definition G1_to_G2 :: MigrationState where
  "G1_to_G2 = \<lparr>groups = [\<lparr>id_in_workspace = ''G1''\<rparr>], get_target_id = (\<lambda>i. if i = ''G1'' then ''G2'' else i)\<rparr>"


definition admin_roles :: Permissions where
  \<comment> \<open>the snapshot the crawl of \<open>G1\<close> gives\<close>
  "admin_roles = \<lparr>object_id = ''G1'', object_type = ''roles'', raw = admin_text\<rparr>"

definition add_roles :: "ComplexValue list \<Rightarrow> Patch list" where
  \<comment> \<open>the operations \<^verbatim>\<open>_applier_task\<close> sends for the property \<^verbatim>\<open>roles\<close>\<close>
  "add_roles v = [\<lparr>op = ADD, path = ''roles'', value_p = JArr (map as_dict v)\<rparr>]"

definition stale_item :: Permissions where
  \<comment> \<open>a snapshot of a group no migration covers\<close>
  "stale_item = \<lparr>object_id = ''G9'', object_type = ''roles'', raw = admin_text\<rparr>"

subsection \<open>Reading the history\<close>

text \<open>
  The events of the attempts of one retried, rate-limited \<^verbatim>\<open>get\<close> of the group \<open>i\<close>: each
  attempt passes the limiter and calls the service; \<open>ns\<close> are the sleeps between the
  attempts.
\<close>

fun get_attempts :: "string \<Rightarrow> nat list \<Rightarrow> event list" where
  "get_attempts i [] = [Throttle 255 60, GroupsGet i]"
| "get_attempts i (n # ns) = [Throttle 255 60, GroupsGet i, Sleep n] @ get_attempts i ns"

text \<open>
  The spec's words for the second step of the listing, "one rate-limited, retried
  getGroup per remaining id": the ids are fetched in order, and the first error ends
  the run.
\<close>

fun get_each ::
  "Lib \<Rightarrow> ScimSupport \<Rightarrow> string list \<Rightarrow> Group list \<Rightarrow> world \<Rightarrow> (error + Group list) \<times> world" where
  "get_each L self [] results w = (Inr results, w)"
| "get_each L self (i # ids) results w =
     (case get_group_with_retries L self i w of
        (Inl e, w') \<Rightarrow> (Inl e, w')
      | (Inr g, w') \<Rightarrow> get_each L self ids (results @ [g]) w')"

fun is_throttle :: "event \<Rightarrow> bool" where
  "is_throttle (Throttle m b) = True"
| "is_throttle ev = False"

fun max_requests :: "event \<Rightarrow> nat" where
  "max_requests (Throttle m b) = m"
| "max_requests ev = 0"

fun burst_period_seconds :: "event \<Rightarrow> nat" where
  "burst_period_seconds (Throttle m b) = b"
| "burst_period_seconds ev = 0"

definition listing :: "string \<Rightarrow> event" where
  \<comment> \<open>the first log record of \<^verbatim>\<open>_list_workspace_groups\<close>\<close>
  "listing scim_attributes =
     LogInfo [Lit ''Listing workspace groups with '', Fmt (JStr scim_attributes), Lit ''...'']"

section \<open>Properties\<close>

lemma issubclass_refl: "issubclass c c"
  by (cases c) simp_all

lemmas run_defs = applier_task_def rate_limited_def retried_def retried_loop.simps
  safe_patch_group_def safe_get_group_def inflight_check_def ws_groups_get_def
  ws_groups_patch_def ws_groups_list_def retryable_def scim_def ScimSupport_init_def
  default_verify_timeout_def Let_def

subsection \<open>The safe wrappers\<close>

text \<open>
  C4. When the remote call raises \<^verbatim>\<open>PermissionDenied\<close> or \<^verbatim>\<open>NotFound\<close> for the group id,
  \<^verbatim>\<open>_safe_get_group\<close> and \<^verbatim>\<open>_safe_patch_group\<close> return \<^verbatim>\<open>None\<close> and log one warning after
  the call; any other error comes out unchanged, with nothing logged.
\<close>

theorem safe_wrappers_absent_or_propagate:
  "(groups_get (ws self) w group_id = Inl e \<longrightarrow>
      safe_get_group self group_id w =
        (if isinstance e PermissionDenied
         then (Inr None, w @ [GroupsGet group_id, LogWarning [Lit ''permission denied: '', Fmt (JStr group_id)]])
         else if isinstance e NotFound
         then (Inr None, w @ [GroupsGet group_id, LogWarning [Lit ''removed on backend: '', Fmt (JStr group_id)]])
         else (Inl e, w @ [GroupsGet group_id])))
 \<and> (groups_patch (ws self) w group_id operations schemas = Inl e' \<longrightarrow>
      safe_patch_group self group_id operations schemas w =
        (if isinstance e' PermissionDenied
         then (Inr JNull, w @ [GroupsPatch group_id operations schemas,
                 LogWarning [Lit ''permission denied: '', Fmt (JStr group_id)]])
         else if isinstance e' NotFound
         then (Inr JNull, w @ [GroupsPatch group_id operations schemas,
                 LogWarning [Lit ''removed on backend: '', Fmt (JStr group_id)]])
         else (Inl e', w @ [GroupsPatch group_id operations schemas])))"
  by (simp add: safe_get_group_def safe_patch_group_def ws_groups_get_def ws_groups_patch_def)

theorem safe_wrappers_witness:
  "groups_get (ws (scim demo_service)) [] ''G3'' = Inl (Error NotFound [Lit ''no such group''])
 \<and> safe_get_group (scim demo_service) ''G3'' [] =
     (Inr None, [GroupsGet ''G3'', LogWarning [Lit ''removed on backend: '', Fmt (JStr ''G3'')]])
 \<and> groups_patch (ws (scim failing_service)) [] ''G2'' [] [] = Inl (Error OtherException [Lit ''connection reset''])
 \<and> safe_patch_group (scim failing_service) ''G2'' [] [] [] =
     (Inl (Error OtherException [Lit ''connection reset'']), [GroupsPatch ''G2'' [] []])"
  using safe_wrappers_absent_or_propagate [of "scim demo_service" "[]" "''G3''"
      "Error NotFound [Lit ''no such group'']" "[]" "[]" "Error OtherException [Lit ''connection reset'']"]
    safe_wrappers_absent_or_propagate [of "scim failing_service" "[]" "''G2''"
      "Error PermissionDenied [Lit ''forbidden'']" "[]" "[]" "Error OtherException [Lit ''connection reset'']"]
  by (simp add: scim_def ScimSupport_init_def demo_service_def failing_service_def)

subsection \<open>The retry loop\<close>


subsection \<open>The apply task\<close>






subsection \<open>The verification check\<close>

lemma retried_first_attempt:
  "f w = (Inr x, w') \<Longrightarrow> retried kinds timeout f w = (Inr x, w')"
  by (simp add: retried_def retried_loop.simps)

lemma truthy_items: "x \<in> set (items xs) \<Longrightarrow> truthy xs"
  by (auto simp: truthy_def items_def split: option.splits list.splits)

lemma safe_get_group_present:
  "groups_get (ws self) w group_id = Inr grp \<Longrightarrow>
   safe_get_group self group_id w = (Inr (Some grp), w @ [GroupsGet group_id])"
  by (simp add: safe_get_group_def ws_groups_get_def)

text \<open>
  C7. When the read gives the target group and a requested grant is missing from the
  group's list of the requested property (\<^verbatim>\<open>roles\<close> or \<^verbatim>\<open>entitlements\<close>), the check raises
  \<^verbatim>\<open>ValueError\<close>; the message formats, in this order, the target group id, the grants to
  be applied and the group as it was read.
\<close>

theorem inflight_check_missing_grant_raises:
  assumes "groups_get (ws self) w group_id = Inr grp"
    and "(property_name = ''roles'' \<and> \<not> set v \<subseteq> set (items (roles grp)))
       \<or> (property_name = ''entitlements'' \<and> \<not> set v \<subseteq> set (items (entitlements grp)))"
  shows "inflight_check self group_id v property_name w =
           (Inl (Error ValueError (not_applied group_id v grp)), w @ [GroupsGet group_id])
       \<and> [x. Fmt x \<leftarrow> not_applied group_id v grp] =
           [JStr group_id, JArr (map as_dict v), Group_as_dict grp]"
  using assms
  by (auto simp: inflight_check_def safe_get_group_present list_all_iff not_applied_def)

theorem inflight_check_missing_grant_witness:
  "groups_get (ws (scim lagging_service)) [] ''G2'' = Inr (a_group ''G2'' ''analysts'' None None)
 \<and> \<not> set [admin] \<subseteq> set (items (roles (a_group ''G2'' ''analysts'' None None)))
 \<and> inflight_check (scim lagging_service) ''G2'' [admin] ''roles'' [] =
     (Inl (Error ValueError (not_applied ''G2'' [admin] (a_group ''G2'' ''analysts'' None None))),
      [GroupsGet ''G2''])
 \<and> [x. Fmt x \<leftarrow> not_applied ''G2'' [admin] (a_group ''G2'' ''analysts'' None None)] =
     [JStr ''G2'', JArr [JObj [(''value'', JStr ''admin'')]], JObj [(''displayName'', JStr ''analysts''), (''id'', JStr ''G2'')]]"
proof -
  have get: "groups_get (ws (scim lagging_service)) [] ''G2'' = Inr (a_group ''G2'' ''analysts'' None None)"
    by (simp add: scim_def ScimSupport_init_def lagging_service_def)
  have missing: "\<not> set [admin] \<subseteq> set (items (roles (a_group ''G2'' ''analysts'' None None)))"
    by (simp add: a_group_def items_def)
  from inflight_check_missing_grant_raises [of "scim lagging_service" "[]" "''G2''" _ "''roles''" "[admin]", OF get]
    missing get
  show ?thesis
    by (simp add: a_group_def items_def Group_as_dict_def list_entry_def truthy_def as_dict_def
        admin_def entry_def)
qed

text \<open>
  C8. A snapshot's grant list is never empty: the crawler yields a task for a list only
  when the list is not empty. When the target group's list of the snapshot's property
  (\<^verbatim>\<open>roles\<close> or \<^verbatim>\<open>entitlements\<close>) already holds every grant of the snapshot, the check
  returns \<^verbatim>\<open>True\<close> after one read and raises nothing, and so does the retried check the
  apply task runs: applying the snapshot once more succeeds.
\<close>

theorem inflight_check_present_grants_verified:
  assumes "groups_get (ws self) w group_id = Inr grp"
    and "v \<noteq> []"
    and "(property_name = ''roles'' \<and> set v \<subseteq> set (items (roles grp)))
       \<or> (property_name = ''entitlements'' \<and> set v \<subseteq> set (items (entitlements grp)))"
  shows "inflight_check self group_id v property_name w = (Inr True, w @ [GroupsGet group_id])
       \<and> retried [ValueError, DatabricksError] (verify_timeout self)
           (inflight_check self group_id v property_name) w = (Inr True, w @ [GroupsGet group_id])"
proof -
  from assms(2) obtain x where x: "x \<in> set v" by (cases v) auto
  have check: "inflight_check self group_id v property_name w = (Inr True, w @ [GroupsGet group_id])"
  proof (cases "property_name = ''roles''")
    case True
    with assms(3) have sub: "set v \<subseteq> set (items (roles grp))" by auto
    with x have "truthy (roles grp)" by (auto intro: truthy_items)
    with sub True show ?thesis
      by (auto simp: inflight_check_def safe_get_group_present [OF assms(1)] list_all_iff)
  next
    case False
    with assms(3) have ent: "property_name = ''entitlements''"
      and sub: "set v \<subseteq> set (items (entitlements grp))" by auto
    with x have "truthy (entitlements grp)" by (auto intro: truthy_items)
    with sub ent show ?thesis
      by (auto simp: inflight_check_def safe_get_group_present [OF assms(1)] list_all_iff)
  qed
  then show ?thesis by (simp add: retried_first_attempt)
qed

theorem inflight_check_present_grants_witness:
  "groups_get (ws (scim demo_service)) [] ''G1'' = Inr (a_group ''G1'' ''analysts'' (Some [admin]) None)
 \<and> [admin] \<noteq> []
 \<and> set [admin] \<subseteq> set (items (roles (a_group ''G1'' ''analysts'' (Some [admin]) None)))
 \<and> inflight_check (scim demo_service) ''G1'' [admin] ''roles'' [] = (Inr True, [GroupsGet ''G1''])"
proof -
  have get: "groups_get (ws (scim demo_service)) [] ''G1'' = Inr (a_group ''G1'' ''analysts'' (Some [admin]) None)"
    by (simp add: scim_def ScimSupport_init_def demo_service_def)
  have present: "set [admin] \<subseteq> set (items (roles (a_group ''G1'' ''analysts'' (Some [admin]) None)))"
    by (simp add: a_group_def items_def)
  from inflight_check_present_grants_verified [of "scim demo_service" "[]" "''G1''" _ "[admin]" "''roles''", OF get]
    present get
  show ?thesis by simp
qed

subsection \<open>Grants as dictionaries\<close>

lemma dict_get_entry_hit:
  "dict_get (entry k v @ rest) k = (if v = JNull then dict_get rest k else v)"
  by (simp add: dict_get_def entry_def)

lemma dict_get_entry_miss:
  "k' \<noteq> k \<Longrightarrow> dict_get (entry k v @ rest) k' = dict_get rest k'"
  by (simp add: dict_get_def entry_def)

lemma dict_get_last_hit: "dict_get (entry k v) k = v"
  by (simp add: dict_get_def entry_def)

lemma dict_get_last_miss: "k' \<noteq> k \<Longrightarrow> dict_get (entry k v) k' = JNull"
  by (simp add: dict_get_def entry_def)

lemma from_dict_as_dict: "from_dict (as_dict e) = Inr e"
  by (simp add: as_dict_def dict_get_entry_hit dict_get_entry_miss dict_get_last_hit
      dict_get_last_miss)

lemma from_dicts_as_dicts: "from_dicts (map as_dict xs) = Inr xs"
  by (induction xs) (simp_all add: from_dict_as_dict)

subsection \<open>Building the apply task\<close>

text \<open>
  C3. An item is relevant when some group of the migration state has the item's object
  id as its \<^verbatim>\<open>id_in_workspace\<close>. For an item that is not relevant, \<^verbatim>\<open>get_apply_task\<close>
  returns \<^verbatim>\<open>None\<close> and leaves the history as it was: no call goes out. For a relevant
  item whose \<^verbatim>\<open>raw\<close> is the text \<^verbatim>\<open>json.dumps\<close> gave for the grants \<open>xs\<close>, which is what a
  crawler task writes and \<^verbatim>\<open>json.loads\<close> reads back, it returns, again without a call, a
  task bound to \<^verbatim>\<open>get_target_id(item.object_id)\<close> that carries \<open>xs\<close> and the item's object
  type; and so for every relevant item whose \<^verbatim>\<open>raw\<close> decodes.
\<close>

theorem get_apply_task_none_or_bound_task:
  "is_item_relevant item migration_state =
     (\<exists>g \<in> set (groups migration_state). id_in_workspace g = object_id item)
 \<and> (\<not> is_item_relevant item migration_state \<longrightarrow>
      get_apply_task L self item migration_state w = (Inr None, w))
 \<and> (is_item_relevant item migration_state
      \<and> raw item = json_dumps L (JArr (map as_dict xs))
      \<and> json_loads L (json_dumps L (JArr (map as_dict xs))) = Inr (JArr (map as_dict xs)) \<longrightarrow>
      get_apply_task L self item migration_state w =
        (Inr (Some \<lparr>at_group_id = get_target_id migration_state (object_id item),
           at_value = xs, at_property_name = object_type item\<rparr>), w))
 \<and> (is_item_relevant item migration_state \<and> load_value L (raw item) = Inr v \<longrightarrow>
      get_apply_task L self item migration_state w =
        (Inr (Some \<lparr>at_group_id = get_target_id migration_state (object_id item),
           at_value = v, at_property_name = object_type item\<rparr>), w))"
proof (intro conjI impI)
  show "is_item_relevant item migration_state =
     (\<exists>g \<in> set (groups migration_state). id_in_workspace g = object_id item)"
    by (simp add: is_item_relevant_def list_ex_iff)
  show "get_apply_task L self item migration_state w = (Inr None, w)"
    if "\<not> is_item_relevant item migration_state"
    using that by (simp add: get_apply_task_def)
  show "get_apply_task L self item migration_state w =
        (Inr (Some \<lparr>at_group_id = get_target_id migration_state (object_id item),
           at_value = v, at_property_name = object_type item\<rparr>), w)"
    if "is_item_relevant item migration_state \<and> load_value L (raw item) = Inr v"
    using that by (simp add: get_apply_task_def)
  show "get_apply_task L self item migration_state w =
        (Inr (Some \<lparr>at_group_id = get_target_id migration_state (object_id item),
           at_value = xs, at_property_name = object_type item\<rparr>), w)"
    if written: "is_item_relevant item migration_state
      \<and> raw item = json_dumps L (JArr (map as_dict xs))
      \<and> json_loads L (json_dumps L (JArr (map as_dict xs))) = Inr (JArr (map as_dict xs))"
  proof -
    from written have "load_value L (raw item) = Inr xs"
      by (simp add: load_value_def from_dicts_as_dicts)
    with written show ?thesis by (simp add: get_apply_task_def)
  qed
qed

theorem get_apply_task_witness:
  "\<not> is_item_relevant stale_item G1_to_G2
 \<and> get_apply_task json_table (scim demo_service) stale_item G1_to_G2 [] = (Inr None, [])
 \<and> is_item_relevant admin_roles G1_to_G2
 \<and> raw admin_roles = json_dumps json_table (JArr (map as_dict [admin]))
 \<and> json_loads json_table (json_dumps json_table (JArr (map as_dict [admin]))) = Inr (JArr (map as_dict [admin]))
 \<and> get_apply_task json_table (scim demo_service) admin_roles G1_to_G2 [] =
     (Inr (Some \<lparr>at_group_id = ''G2'', at_value = [admin], at_property_name = ''roles''\<rparr>), [])"
proof -
  have stale: "\<not> is_item_relevant stale_item G1_to_G2"
    by (simp add: is_item_relevant_def stale_item_def G1_to_G2_def)
  have rel: "is_item_relevant admin_roles G1_to_G2"
    by (simp add: is_item_relevant_def admin_roles_def G1_to_G2_def)
  have written: "raw admin_roles = json_dumps json_table (JArr (map as_dict [admin]))"
    by (simp add: admin_roles_def json_table_def as_dict_def admin_def entry_def)
  have reread: "json_loads json_table (json_dumps json_table (JArr (map as_dict [admin]))) =
      Inr (JArr (map as_dict [admin]))"
    by (simp add: json_table_def as_dict_def admin_def entry_def)
  note t1 = get_apply_task_none_or_bound_task [of stale_item G1_to_G2 json_table
      "scim demo_service" "[]" "[admin]" "[admin]"]
  note t2 = get_apply_task_none_or_bound_task [of admin_roles G1_to_G2 json_table
      "scim demo_service" "[]" "[admin]" "[admin]"]
  from mp [OF conjunct1 [OF conjunct2 [OF t1]] stale]
  have none: "get_apply_task json_table (scim demo_service) stale_item G1_to_G2 [] = (Inr None, [])" .
  from mp [OF conjunct1 [OF conjunct2 [OF conjunct2 [OF t2]]]] rel written reread
  have "get_apply_task json_table (scim demo_service) admin_roles G1_to_G2 [] =
     (Inr (Some \<lparr>at_group_id = get_target_id G1_to_G2 (object_id admin_roles), at_value = [admin],
        at_property_name = object_type admin_roles\<rparr>), [])"
    by blast
  then have task: "get_apply_task json_table (scim demo_service) admin_roles G1_to_G2 [] =
     (Inr (Some \<lparr>at_group_id = ''G2'', at_value = [admin], at_property_name = ''roles''\<rparr>), [])"
    by (simp add: admin_roles_def G1_to_G2_def)
  from stale none rel written reread task show ?thesis by blast
qed

subsection \<open>From the crawl to the apply task\<close>

text \<open>
  C10. Let \<open>xs\<close> be the list a group holds under \<^verbatim>\<open>roles\<close> or \<^verbatim>\<open>entitlements\<close>, and let
  \<^verbatim>\<open>json.loads\<close> give back the document \<^verbatim>\<open>json.dumps\<close> was given for this list. Then the
  crawler task produces a \<^verbatim>\<open>Permissions\<close> whose \<^verbatim>\<open>raw\<close> decodes, the way \<^verbatim>\<open>get_apply_task\<close>
  decodes it, to \<open>xs\<close> itself, and the apply task built from it carries \<open>xs\<close> and the
  same property name.
\<close>

theorem crawl_apply_round_trip:
  assumes "(property_name = ''roles'' \<and> roles grp = Some xs)
         \<or> (property_name = ''entitlements'' \<and> entitlements grp = Some xs)"
    and "json_loads L (json_dumps L (JArr (map as_dict xs))) = Inr (JArr (map as_dict xs))"
  shows "\<exists>item. crawler_task L grp property_name = Inr item
           \<and> object_id item = id_g grp \<and> object_type item = property_name
           \<and> load_value L (raw item) = Inr xs
           \<and> (is_item_relevant item migration_state \<longrightarrow>
                get_apply_task L self item migration_state w =
                  (Inr (Some \<lparr>at_group_id = get_target_id migration_state (id_g grp),
                     at_value = xs, at_property_name = property_name\<rparr>), w))"
proof -
  let ?item = "\<lparr>object_id = id_g grp, object_type = property_name,
                 raw = json_dumps L (JArr (map as_dict xs))\<rparr>"
  from assms(1) have "getattr_elements grp property_name = Inr xs"
    unfolding getattr_elements_def by (elim disjE conjE) simp_all
  then have crawl: "crawler_task L grp property_name = Inr ?item"
    by (simp add: crawler_task_def)
  have load: "load_value L (raw ?item) = Inr xs"
    by (simp add: load_value_def assms(2) from_dicts_as_dicts)
  have "is_item_relevant ?item migration_state \<longrightarrow>
        get_apply_task L self ?item migration_state w =
          (Inr (Some \<lparr>at_group_id = get_target_id migration_state (id_g grp),
             at_value = xs, at_property_name = property_name\<rparr>), w)"
    using load by (simp add: get_apply_task_def)
  with crawl load show ?thesis by simp
qed

theorem crawl_apply_round_trip_witness:
  "roles (a_group ''G1'' ''analysts'' (Some [admin]) None) = Some [admin]
 \<and> json_loads json_table (json_dumps json_table (JArr (map as_dict [admin]))) = Inr (JArr (map as_dict [admin]))
 \<and> crawler_task json_table (a_group ''G1'' ''analysts'' (Some [admin]) None) ''roles'' = Inr admin_roles
 \<and> load_value json_table (raw admin_roles) = Inr [admin]
 \<and> is_item_relevant admin_roles G1_to_G2
 \<and> get_apply_task json_table (scim demo_service) admin_roles G1_to_G2 [] =
     (Inr (Some \<lparr>at_group_id = ''G2'', at_value = [admin], at_property_name = ''roles''\<rparr>), [])"
proof -
  have r: "roles (a_group ''G1'' ''analysts'' (Some [admin]) None) = Some [admin]"
    by (simp add: a_group_def)
  have j: "json_loads json_table (json_dumps json_table (JArr (map as_dict [admin]))) = Inr (JArr (map as_dict [admin]))"
    by (simp add: json_table_def as_dict_def admin_def entry_def)
  have c: "crawler_task json_table (a_group ''G1'' ''analysts'' (Some [admin]) None) ''roles'' = Inr admin_roles"
    by (simp add: crawler_task_def getattr_elements_def a_group_def admin_roles_def json_table_def
        as_dict_def admin_def entry_def)
  have rel: "is_item_relevant admin_roles G1_to_G2"
    by (simp add: is_item_relevant_def admin_roles_def G1_to_G2_def)
  from crawl_apply_round_trip [of "''roles''" "a_group ''G1'' ''analysts'' (Some [admin]) None" "[admin]"
      json_table G1_to_G2 "scim demo_service" "[]", OF _ j] r c rel
  have "load_value json_table (raw admin_roles) = Inr [admin]
      \<and> get_apply_task json_table (scim demo_service) admin_roles G1_to_G2 [] =
          (Inr (Some \<lparr>at_group_id = get_target_id G1_to_G2 (id_g (a_group ''G1'' ''analysts'' (Some [admin]) None)),
             at_value = [admin], at_property_name = ''roles''\<rparr>), [])"
    by auto
  with r j c rel show ?thesis
    by (simp add: G1_to_G2_def a_group_def)
qed

subsection \<open>What a retried call leaves in the history\<close>

lemma retried_loop_unfold:
  "retried_loop kinds timeout f attempt elapsed w =
     (case f w of
        (Inr v, w') \<Rightarrow> (Inr v, w')
      | (Inl e, w') \<Rightarrow>
          if retryable kinds e \<and> elapsed < timeout
          then retried_loop kinds timeout f (Suc attempt) (elapsed + min 10 (Suc attempt))
                 (w' @ [Sleep (min 10 (Suc attempt))])
          else (Inl e, w'))"
  by (rule retried_loop.simps)

lemma retried_loop_events:
  assumes f: "\<And>w. \<exists>es. snd (f w) = w @ es \<and> list_all Q es"
    and q: "\<And>n. Q (Sleep n)"
  shows "\<exists>es. snd (retried_loop kinds timeout f attempt elapsed w) = w @ es \<and> list_all Q es"
  using f
proof (induction kinds timeout f attempt elapsed w rule: retried_loop.induct)
  case (1 kinds timeout f attempt elapsed w)
  obtain r w1 where fw: "f w = (r, w1)" by (cases "f w")
  from "1.prems" [of w] fw obtain es where es: "w1 = w @ es" "list_all Q es" by auto
  show ?case
  proof (cases r)
    case (Inr x)
    with fw es show ?thesis by (subst retried_loop_unfold) simp
  next
    case (Inl e)
    show ?thesis
    proof (cases "retryable kinds e \<and> elapsed < timeout")
      case False
      with fw Inl es show ?thesis by (subst retried_loop_unfold) auto
    next
      case True
      let ?n = "min 10 (Suc attempt)"
      from "1.IH" [OF fw [symmetric] Inl True "1.prems"] q
      obtain es' where es': "snd (retried_loop kinds timeout f (Suc attempt) (elapsed + ?n)
          (w1 @ [Sleep ?n])) = (w1 @ [Sleep ?n]) @ es'" "list_all Q es'"
        by blast
      have "snd (retried_loop kinds timeout f attempt elapsed w) = w @ (es @ Sleep ?n # es')"
        using fw Inl True es es' by (subst retried_loop_unfold) simp
      moreover have "list_all Q (es @ Sleep ?n # es')"
        using es es' q by simp
      ultimately show ?thesis by blast
    qed
  qed
qed

lemma retried_loop_get_attempts:
  "\<exists>ns. snd (retried_loop kinds timeout (rate_limited 255 60 (ws_groups_get c i)) attempt elapsed w)
         = w @ get_attempts i ns"
proof (induction kinds timeout "rate_limited 255 60 (ws_groups_get c i)" attempt elapsed w
    rule: retried_loop.induct)
  case (1 kinds timeout attempt elapsed w)
  let ?f = "rate_limited 255 60 (ws_groups_get c i)"
  obtain r where fw: "?f w = (r, w @ [Throttle 255 60, GroupsGet i])"
    by (simp add: rate_limited_def ws_groups_get_def)
  show ?case
  proof (cases r)
    case (Inr x)
    with fw have "snd (retried_loop kinds timeout ?f attempt elapsed w) = w @ get_attempts i []"
      by (subst retried_loop_unfold) simp
    then show ?thesis by blast
  next
    case (Inl e)
    show ?thesis
    proof (cases "retryable kinds e \<and> elapsed < timeout")
      case False
      with fw Inl have "snd (retried_loop kinds timeout ?f attempt elapsed w) = w @ get_attempts i []"
        by (subst retried_loop_unfold) auto
      then show ?thesis by blast
    next
      case True
      let ?n = "min 10 (Suc attempt)"
      from "1.hyps" [OF fw [symmetric] Inl True]
      obtain ns where ns: "snd (retried_loop kinds timeout ?f (Suc attempt) (elapsed + ?n)
          ((w @ [Throttle 255 60, GroupsGet i]) @ [Sleep ?n])) =
          ((w @ [Throttle 255 60, GroupsGet i]) @ [Sleep ?n]) @ get_attempts i ns"
        by blast
      have "snd (retried_loop kinds timeout ?f attempt elapsed w) = w @ get_attempts i (?n # ns)"
        using fw Inl True ns by (subst retried_loop_unfold) simp
      then show ?thesis by blast
    qed
  qed
qed

lemma retried_loop_calls:
  assumes f: "\<And>w. length (filter P (snd (f w))) = Suc (length (filter P w))"
    and q: "\<And>n. \<not> P (Sleep n)"
  shows "length (filter P (snd (retried_loop kinds timeout f attempt elapsed w)))
         \<le> length (filter P w) + (timeout - elapsed) + 1"
  using f
proof (induction kinds timeout f attempt elapsed w rule: retried_loop.induct)
  case (1 kinds timeout f attempt elapsed w)
  obtain r w1 where fw: "f w = (r, w1)" by (cases "f w")
  from "1.prems" [of w] fw have w1: "length (filter P w1) = Suc (length (filter P w))" by simp
  show ?case
  proof (cases r)
    case (Inr x)
    with fw w1 show ?thesis by (subst retried_loop_unfold) simp
  next
    case (Inl e)
    show ?thesis
    proof (cases "retryable kinds e \<and> elapsed < timeout")
      case False
      with fw Inl w1 show ?thesis by (subst retried_loop_unfold) auto
    next
      case True
      let ?n = "min 10 (Suc attempt)"
      have rec: "length (filter P (snd (retried_loop kinds timeout f (Suc attempt) (elapsed + ?n)
          (w1 @ [Sleep ?n])))) \<le> length (filter P (w1 @ [Sleep ?n])) + (timeout - (elapsed + ?n)) + 1"
        using "1.IH" [OF fw [symmetric] Inl True "1.prems"] by blast
      have len: "length (filter P (w1 @ [Sleep ?n])) = Suc (length (filter P w))"
        using w1 q by simp
      have bound: "Suc (timeout - (elapsed + ?n)) \<le> timeout - elapsed"
        using True by auto
      have step: "retried_loop kinds timeout f attempt elapsed w =
          retried_loop kinds timeout f (Suc attempt) (elapsed + ?n) (w1 @ [Sleep ?n])"
        using fw Inl True by (subst retried_loop_unfold) simp
      from rec len bound
      have "length (filter P (snd (retried_loop kinds timeout f (Suc attempt) (elapsed + ?n)
          (w1 @ [Sleep ?n])))) \<le> length (filter P w) + (timeout - elapsed) + 1"
        by linarith
      then show ?thesis by (simp only: step)
    qed
  qed
qed

subsection \<open>The crawler's tasks\<close>

text \<open>
  The body of the generator \<^verbatim>\<open>get_crawler_tasks\<close>, over the groups \<^verbatim>\<open>_get_groups\<close> would
  return, does what it is meant to do. A group whose role list and entitlement list are
  both empty or \<^verbatim>\<open>None\<close> yields no task; a group with a non-empty role list yields
  exactly one task for \<^verbatim>\<open>roles\<close>, a group with a non-empty entitlement list exactly one
  for \<^verbatim>\<open>entitlements\<close>, the task bound to this group; no group yields two tasks for one
  property name.
\<close>

lemma crawler_tasks_per_group:
  "crawler_tasks gs = concat (map (\<lambda>g. crawler_tasks [g]) gs)
 \<and> (items (roles g) = [] \<and> items (entitlements g) = [] \<longrightarrow> crawler_tasks [g] = [])
 \<and> (items (roles g) \<noteq> [] \<longrightarrow>
      filter (\<lambda>t. ct_property_name t = ''roles'') (crawler_tasks [g]) =
        [\<lparr>ct_group = g, ct_property_name = ''roles''\<rparr>])
 \<and> (items (entitlements g) \<noteq> [] \<longrightarrow>
      filter (\<lambda>t. ct_property_name t = ''entitlements'') (crawler_tasks [g]) =
        [\<lparr>ct_group = g, ct_property_name = ''entitlements''\<rparr>])
 \<and> length (filter (\<lambda>t. ct_property_name t = p) (crawler_tasks [g])) \<le> 1
 \<and> length (crawler_tasks [g]) =
      (if items (roles g) = [] then 0 else 1) + (if items (entitlements g) = [] then 0 else 1)"
proof -
  have truthy_iff: "\<And>xs :: ComplexValue list option. truthy xs = (items xs \<noteq> [])"
    by (simp add: truthy_def items_def split: option.splits list.splits)
  have "crawler_tasks gs = concat (map (\<lambda>g. crawler_tasks [g]) gs)"
    by (induction gs) simp_all
  moreover have "length (filter (\<lambda>t. ct_property_name t = p) (crawler_tasks [g])) \<le> 1"
    by (cases "p = ''roles''") (simp_all add: truthy_iff)
  ultimately show ?thesis
    by (simp add: truthy_iff)
qed

lemma crawler_tasks_example:
  "items (roles (a_group ''G4'' ''interns'' None (Some []))) = []
 \<and> items (entitlements (a_group ''G4'' ''interns'' None (Some []))) = []
 \<and> crawler_tasks [a_group ''G4'' ''interns'' None (Some [])] = []
 \<and> items (roles (a_group ''G1'' ''analysts'' (Some [admin]) None)) \<noteq> []
 \<and> crawler_tasks [a_group ''G4'' ''interns'' None (Some []), a_group ''G1'' ''analysts'' (Some [admin]) None] =
     [\<lparr>ct_group = a_group ''G1'' ''analysts'' (Some [admin]) None, ct_property_name = ''roles''\<rparr>]"
  using crawler_tasks_per_group [of "[a_group ''G4'' ''interns'' None (Some [])]"
      "a_group ''G4'' ''interns'' None (Some [])" "''roles''"]
    crawler_tasks_per_group [of "[a_group ''G4'' ''interns'' None (Some []), a_group ''G1'' ''analysts'' (Some [admin]) None]"
      "a_group ''G1'' ''analysts'' (Some [admin]) None" "''roles''"]
  by (simp add: a_group_def items_def truthy_def)

text \<open>
  C2. The claim does not hold of \<^verbatim>\<open>get_crawler_tasks\<close> as the class stands: the generator
  never reaches its body. \<^verbatim>\<open>_get_groups\<close> passes the keyword \<^verbatim>\<open>attributes\<close> to
  \<^verbatim>\<open>_list_workspace_groups\<close>, whose parameter is \<^verbatim>\<open>scim_attributes\<close>, so the call raises
  \<^verbatim>\<open>TypeError\<close>, which is not retried. For every workspace, \<^verbatim>\<open>get_crawler_tasks\<close> raises
  this error, yields no task and leaves the history as it was.
\<close>

theorem get_crawler_tasks_raises:
  "get_crawler_tasks L self w =
     (Inl (Error TypeError [Lit ''got an unexpected keyword argument '', Fmt (JStr ''attributes'')]), w)"
  by (simp add: get_crawler_tasks_def get_groups_def retried_def retried_loop_unfold
      call_keyword_def retryable_def)

text \<open>
  At a workspace whose group \<open>G1\<close> has the role \<open>admin\<close>: the body would yield the one
  task for \<^verbatim>\<open>roles\<close>; the generator raises, also when the base class provides the system
  groups.
\<close>

theorem get_crawler_tasks_raises_witness:
  "crawler_tasks [a_group ''G1'' ''analysts'' (Some [admin]) None] =
     [\<lparr>ct_group = a_group ''G1'' ''analysts'' (Some [admin]) None, ct_property_name = ''roles''\<rparr>]
 \<and> get_crawler_tasks json_table (scim_with_system_groups demo_service) [] =
     (Inl (Error TypeError [Lit ''got an unexpected keyword argument '', Fmt (JStr ''attributes'')]), [])"
  using get_crawler_tasks_raises [of json_table "scim_with_system_groups demo_service" "[]"]
  by (simp add: a_group_def truthy_def items_def)

subsection \<open>Listing the workspace groups\<close>

lemma get_group_with_retries_events:
  "\<exists>ns. snd (get_group_with_retries L self i w) = w @ get_attempts i ns"
  unfolding get_group_with_retries_def retried_def by (rule retried_loop_get_attempts)

lemma fetch_all_attributes_in_scope:
  assumes "SYSTEM_GROUPS self = Some names"
  shows "fetch_all_attributes L self gs results w =
     get_each L self (map id_g (filter (\<lambda>g. is_group_out_of_scope self g = Inr False) gs)) results w"
proof (induction gs arbitrary: results w)
  case Nil
  show ?case by simp
next
  case (Cons g gs)
  from assms obtain b where b: "is_group_out_of_scope self g = Inr b"
    by (simp add: is_group_out_of_scope_def)
  show ?case
  proof (cases b)
    case True
    with b Cons show ?thesis by simp
  next
    case False
    obtain r w' where got: "get_group_with_retries L self (id_g g) w = (r, w')"
      by (cases "get_group_with_retries L self (id_g g) w")
    with False b Cons show ?thesis by (cases r) simp_all
  qed
qed

lemma get_each_events:
  "\<exists>nss. length nss \<le> length ids
      \<and> snd (get_each L self ids results w) = w @ concat (map2 get_attempts ids nss)
      \<and> (\<forall>rs. fst (get_each L self ids results w) = Inr rs \<longrightarrow>
            length nss = length ids \<and> length rs = length results + length ids)"
proof (induction ids arbitrary: results w)
  case Nil
  show ?case by simp
next
  case (Cons i ids)
  obtain r w' where got: "get_group_with_retries L self i w = (r, w')"
    by (cases "get_group_with_retries L self i w")
  with get_group_with_retries_events [of L self i w]
  obtain ns where ns: "w' = w @ get_attempts i ns" by auto
  show ?case
  proof (cases r)
    case (Inl e)
    with got ns have "snd (get_each L self (i # ids) results w) = w @ concat (map2 get_attempts (i # ids) [ns])"
      and "fst (get_each L self (i # ids) results w) = Inl e"
      by simp_all
    then show ?thesis
      by (intro exI [of _ "[ns]"]) simp
  next
    case (Inr g)
    from Cons [of "results @ [g]" w']
    obtain nss where nss: "length nss \<le> length ids"
      "snd (get_each L self ids (results @ [g]) w') = w' @ concat (map2 get_attempts ids nss)"
      "\<forall>rs. fst (get_each L self ids (results @ [g]) w') = Inr rs \<longrightarrow>
            length nss = length ids \<and> length rs = length (results @ [g]) + length ids"
      by blast
    from got Inr have step: "get_each L self (i # ids) results w = get_each L self ids (results @ [g]) w'"
      by simp
    show ?thesis
      using nss ns unfolding step
      by (intro exI [of _ "ns # nss"]) simp
  qed
qed

text \<open>
  What \<^verbatim>\<open>_list_workspace_groups\<close> is written to do, and does when it is called with its
  parameter bound and the object has the attribute \<^verbatim>\<open>_SYSTEM_GROUPS\<close>. When the requested
  attributes name \<^verbatim>\<open>members\<close>, \<^verbatim>\<open>roles\<close> or \<^verbatim>\<open>entitlements\<close>, it first lists the groups with
  the attributes \<^verbatim>\<open>id,displayName,meta\<close>; a failed listing ends the run. It then drops
  every group whose display name is one of the system groups, and fetches the ids of
  the remaining groups one by one, in order, each with one retried, rate-limited
  \<^verbatim>\<open>get\<close>: after the listing the history holds nothing but the attempts for these ids
  (each attempt a pass through the 255-per-60-seconds limiter followed by the \<^verbatim>\<open>get\<close> of
  that id), so no \<^verbatim>\<open>get\<close> goes out for a dropped group. When the run returns, it returns
  one group per remaining id.
\<close>

lemma list_workspace_groups_cheap_then_get:
  assumes "contains ''members'' scim_attributes \<or> contains ''roles'' scim_attributes
         \<or> contains ''entitlements'' scim_attributes"
    and "SYSTEM_GROUPS self = Some names"
  shows "(groups_list (ws self) (w @ [listing scim_attributes]) ''id,displayName,meta'' = Inl e \<longrightarrow>
           list_workspace_groups L self scim_attributes w =
             (Inl e, w @ [listing scim_attributes, GroupsList ''id,displayName,meta'']))
       \<and> (groups_list (ws self) (w @ [listing scim_attributes]) ''id,displayName,meta'' = Inr gs \<longrightarrow>
           list_workspace_groups L self scim_attributes w =
             (case get_each L self (map id_g (filter (\<lambda>g. is_group_out_of_scope self g = Inr False) gs)) []
                     (w @ [listing scim_attributes, GroupsList ''id,displayName,meta'']) of
                (Inl e, w2) \<Rightarrow> (Inl e, w2)
              | (Inr results, w2) \<Rightarrow> (Inr results, w2 @ [found_groups results]))
         \<and> (\<exists>nss done. length nss \<le> length (filter (\<lambda>g. is_group_out_of_scope self g = Inr False) gs)
               \<and> snd (list_workspace_groups L self scim_attributes w) =
                   w @ [listing scim_attributes, GroupsList ''id,displayName,meta'']
                     @ concat (map2 get_attempts
                         (map id_g (filter (\<lambda>g. is_group_out_of_scope self g = Inr False) gs)) nss) @ done
               \<and> list_all (\<lambda>ev. \<not> is_get ev) done
               \<and> (\<forall>results. fst (list_workspace_groups L self scim_attributes w) = Inr results \<longrightarrow>
                     length nss = length (filter (\<lambda>g. is_group_out_of_scope self g = Inr False) gs)
                   \<and> length results = length (filter (\<lambda>g. is_group_out_of_scope self g = Inr False) gs))))
       \<and> is_group_out_of_scope self g = Inr (\<exists>n \<in> set names. display_name g = Some n)"
proof (intro conjI impI)
  let ?w1 = "w @ [listing scim_attributes, GroupsList ''id,displayName,meta'']"
  let ?ids = "map id_g (filter (\<lambda>g. is_group_out_of_scope self g = Inr False) gs)"
  show "is_group_out_of_scope self g = Inr (\<exists>n \<in> set names. display_name g = Some n)"
    using assms(2) by (auto simp: is_group_out_of_scope_def split: option.splits)
  {
    assume "groups_list (ws self) (w @ [listing scim_attributes]) ''id,displayName,meta'' = Inl e"
    with assms(1) show "list_workspace_groups L self scim_attributes w = (Inl e, ?w1)"
      by (simp add: list_workspace_groups_def Let_def ws_groups_list_def listing_def)
  }
  assume listed: "groups_list (ws self) (w @ [listing scim_attributes]) ''id,displayName,meta'' = Inr gs"
  with assms(1) show run: "list_workspace_groups L self scim_attributes w =
      (case get_each L self ?ids [] ?w1 of
         (Inl e, w2) \<Rightarrow> (Inl e, w2)
       | (Inr results, w2) \<Rightarrow> (Inr results, w2 @ [found_groups results]))"
    by (simp add: list_workspace_groups_def Let_def ws_groups_list_def listing_def
        fetch_all_attributes_in_scope [OF assms(2)])
  obtain r w2 where each: "get_each L self ?ids [] ?w1 = (r, w2)"
    by (cases "get_each L self ?ids [] ?w1")
  from get_each_events [of ?ids L self "[]" ?w1] each
  obtain nss where nss: "length nss \<le> length ?ids"
    "w2 = ?w1 @ concat (map2 get_attempts ?ids nss)"
    "\<forall>rs. r = Inr rs \<longrightarrow> length nss = length ?ids \<and> length rs = length ?ids"
    by auto
  show "\<exists>nss done. length nss \<le> length (filter (\<lambda>g. is_group_out_of_scope self g = Inr False) gs)
      \<and> snd (list_workspace_groups L self scim_attributes w) =
          w @ [listing scim_attributes, GroupsList ''id,displayName,meta'']
            @ concat (map2 get_attempts ?ids nss) @ done
      \<and> list_all (\<lambda>ev. \<not> is_get ev) done
      \<and> (\<forall>results. fst (list_workspace_groups L self scim_attributes w) = Inr results \<longrightarrow>
            length nss = length (filter (\<lambda>g. is_group_out_of_scope self g = Inr False) gs)
          \<and> length results = length (filter (\<lambda>g. is_group_out_of_scope self g = Inr False) gs))"
  proof (cases r)
    case (Inl e)
    with run each nss show ?thesis
      by (intro exI [of _ nss] exI [of _ "[]"]) simp
  next
    case (Inr results)
    with run each nss show ?thesis
      by (intro exI [of _ nss] exI [of _ "[found_groups results]"]) (simp add: found_groups_def)
  qed
qed

lemma list_workspace_groups_example:
  "list_workspace_groups json_table (scim_with_system_groups demo_service)
     ''id,displayName,roles,entitlements'' [] =
     (Inr [a_group ''G1'' ''analysts'' (Some [admin]) None, a_group ''G4'' ''interns'' None (Some [])],
      [listing ''id,displayName,roles,entitlements'', GroupsList ''id,displayName,meta'',
       Throttle 255 60, GroupsGet ''G1'', Throttle 255 60, GroupsGet ''G4'',
       found_groups [a_group ''G1'' ''analysts'' (Some [admin]) None, a_group ''G4'' ''interns'' None (Some [])]])"
  by (simp add: list_workspace_groups_def Let_def ws_groups_list_def listing_def
      is_group_out_of_scope_def scim_with_system_groups_def ScimSupport_init_def demo_service_def
      a_group_def get_group_with_retries_def retried_def retried_loop_unfold rate_limited_def
      ws_groups_get_def)

lemma list_workspace_groups_no_attribute:
  assumes "contains ''members'' scim_attributes \<or> contains ''roles'' scim_attributes
         \<or> contains ''entitlements'' scim_attributes"
    and "SYSTEM_GROUPS self = None"
    and "groups_list (ws self) (w @ [listing scim_attributes]) ''id,displayName,meta'' = Inr (g # gs)"
  shows "list_workspace_groups L self scim_attributes w =
           (Inl no_system_groups, w @ [listing scim_attributes, GroupsList ''id,displayName,meta''])"
  using assms
  by (simp add: list_workspace_groups_def Let_def ws_groups_list_def listing_def
      is_group_out_of_scope_def)

text \<open>
  C5. The claim does not hold of the crawler as the class stands. The crawler's only
  call of \<^verbatim>\<open>_list_workspace_groups\<close>, in \<^verbatim>\<open>_get_groups\<close>, passes the keyword \<^verbatim>\<open>attributes\<close>
  to the parameter \<^verbatim>\<open>scim_attributes\<close>: the call raises \<^verbatim>\<open>TypeError\<close> before the function's
  body runs, so nothing is listed and no \<^verbatim>\<open>get\<close> goes out, for any workspace. And on an
  object without the attribute \<^verbatim>\<open>_SYSTEM_GROUPS\<close>, which the class never sets, a direct call
  that asks for \<^verbatim>\<open>members\<close>, \<^verbatim>\<open>roles\<close> or \<^verbatim>\<open>entitlements\<close> lists the groups and then, when
  the listing is not empty, raises \<^verbatim>\<open>AttributeError\<close> at the first group, before any
  \<^verbatim>\<open>get\<close>.
\<close>

theorem get_groups_raises_before_listing:
  "get_groups L self w =
     (Inl (Error TypeError [Lit ''got an unexpected keyword argument '', Fmt (JStr ''attributes'')]), w)
 \<and> ((contains ''members'' scim_attributes \<or> contains ''roles'' scim_attributes
        \<or> contains ''entitlements'' scim_attributes)
      \<and> SYSTEM_GROUPS self = None
      \<and> groups_list (ws self) (w @ [listing scim_attributes]) ''id,displayName,meta'' = Inr (g # gs) \<longrightarrow>
      list_workspace_groups L self scim_attributes w =
        (Inl no_system_groups, w @ [listing scim_attributes, GroupsList ''id,displayName,meta'']))"
proof (intro conjI impI)
  show "get_groups L self w =
     (Inl (Error TypeError [Lit ''got an unexpected keyword argument '', Fmt (JStr ''attributes'')]), w)"
    by (simp add: get_groups_def retried_def retried_loop_unfold call_keyword_def retryable_def)
  show "list_workspace_groups L self scim_attributes w =
        (Inl no_system_groups, w @ [listing scim_attributes, GroupsList ''id,displayName,meta''])"
    if "(contains ''members'' scim_attributes \<or> contains ''roles'' scim_attributes
        \<or> contains ''entitlements'' scim_attributes)
      \<and> SYSTEM_GROUPS self = None
      \<and> groups_list (ws self) (w @ [listing scim_attributes]) ''id,displayName,meta'' = Inr (g # gs)"
    using that by (intro list_workspace_groups_no_attribute) simp_all
qed

theorem get_groups_raises_witness:
  "get_groups json_table (scim demo_service) [] =
     (Inl (Error TypeError [Lit ''got an unexpected keyword argument '', Fmt (JStr ''attributes'')]), [])
 \<and> contains ''roles'' ''id,displayName,roles,entitlements''
 \<and> SYSTEM_GROUPS (scim demo_service) = None
 \<and> groups_list (ws (scim demo_service)) [listing ''id,displayName,roles,entitlements'']
      ''id,displayName,meta'' =
     Inr [a_group ''G1'' ''analysts'' None None, a_group ''G0'' ''admins'' None None,
          a_group ''G4'' ''interns'' None None]
 \<and> list_workspace_groups json_table (scim demo_service) ''id,displayName,roles,entitlements'' [] =
     (Inl no_system_groups,
      [listing ''id,displayName,roles,entitlements'', GroupsList ''id,displayName,meta''])"
proof -
  let ?a = "''id,displayName,roles,entitlements''"
  note t = get_groups_raises_before_listing [of json_table "scim demo_service" "[]" ?a
      "a_group ''G1'' ''analysts'' None None"
      "[a_group ''G0'' ''admins'' None None, a_group ''G4'' ''interns'' None None]"]
  have c: "contains ''roles'' ?a" by simp
  have n: "SYSTEM_GROUPS (scim demo_service) = None"
    by (simp add: scim_def ScimSupport_init_def)
  have l: "groups_list (ws (scim demo_service)) ([] @ [listing ?a]) ''id,displayName,meta'' =
      Inr [a_group ''G1'' ''analysts'' None None, a_group ''G0'' ''admins'' None None,
           a_group ''G4'' ''interns'' None None]"
    by (simp add: scim_def ScimSupport_init_def demo_service_def)
  from c n l have pre: "(contains ''members'' ?a \<or> contains ''roles'' ?a \<or> contains ''entitlements'' ?a)
      \<and> SYSTEM_GROUPS (scim demo_service) = None
      \<and> groups_list (ws (scim demo_service)) ([] @ [listing ?a]) ''id,displayName,meta'' =
          Inr (a_group ''G1'' ''analysts'' None None #
               [a_group ''G0'' ''admins'' None None, a_group ''G4'' ''interns'' None None])"
    by blast
  from mp [OF conjunct2 [OF t] pre]
  have run: "list_workspace_groups json_table (scim demo_service) ?a [] =
      (Inl no_system_groups, [listing ?a, GroupsList ''id,displayName,meta''])"
    by simp
  from conjunct1 [OF t] c n l run show ?thesis by simp
qed

subsection \<open>The two retries of the apply task\<close>

lemma safe_patch_group_one_patch:
  "length (filter is_patch (snd (safe_patch_group self i ops schemas w))) = Suc (length (filter is_patch w))"
  by (simp add: safe_patch_group_def ws_groups_patch_def split: sum.splits)

lemma safe_patch_group_no_get:
  "\<exists>es. snd (safe_patch_group self i ops schemas w) = w @ es \<and> list_all (\<lambda>ev. \<not> is_get ev) es"
  by (simp add: safe_patch_group_def ws_groups_patch_def split: sum.splits)

lemma safe_get_group_one_get:
  "length (filter is_get (snd (safe_get_group self i w))) = Suc (length (filter is_get w))"
  by (simp add: safe_get_group_def ws_groups_get_def split: sum.splits)

lemma safe_get_group_no_patch:
  "\<exists>es. snd (safe_get_group self i w) = w @ es \<and> list_all (\<lambda>ev. \<not> is_patch ev) es"
  by (simp add: safe_get_group_def ws_groups_get_def split: sum.splits)

lemma inflight_check_history:
  "snd (inflight_check self i v p w) = snd (safe_get_group self i w)"
  by (simp add: inflight_check_def split: prod.splits sum.splits option.splits)

lemma patch_phase_calls:
  fixes self i ops schemas kinds timeout w
  defines "w1 \<equiv> snd (retried kinds timeout (safe_patch_group self i ops schemas) w)"
  shows "length (filter is_patch w1) \<le> length (filter is_patch w) + timeout + 1"
    and "length (filter is_get w1) = length (filter is_get w)"
proof -
  from retried_loop_calls [of is_patch "safe_patch_group self i ops schemas" kinds timeout 0 0 w,
      OF safe_patch_group_one_patch]
  show "length (filter is_patch w1) \<le> length (filter is_patch w) + timeout + 1"
    by (simp add: w1_def retried_def)
  from retried_loop_events [of "safe_patch_group self i ops schemas" "\<lambda>ev. \<not> is_get ev" kinds timeout 0 0 w,
      OF safe_patch_group_no_get]
  obtain es where "w1 = w @ es" "list_all (\<lambda>ev. \<not> is_get ev) es"
    by (auto simp: w1_def retried_def)
  then show "length (filter is_get w1) = length (filter is_get w)"
    by (simp add: list_all_iff)
qed

lemma check_phase_calls:
  fixes self i v p kinds timeout w
  defines "w2 \<equiv> snd (retried kinds timeout (inflight_check self i v p) w)"
  shows "length (filter is_get w2) \<le> length (filter is_get w) + timeout + 1"
    and "length (filter is_patch w2) = length (filter is_patch w)"
proof -
  from retried_loop_calls [of is_get "inflight_check self i v p" kinds timeout 0 0 w]
  show "length (filter is_get w2) \<le> length (filter is_get w) + timeout + 1"
    by (simp add: w2_def retried_def inflight_check_history safe_get_group_one_get)
  from retried_loop_events [of "inflight_check self i v p" "\<lambda>ev. \<not> is_patch ev" kinds timeout 0 0 w]
  obtain es where "w2 = w @ es" "list_all (\<lambda>ev. \<not> is_patch ev) es"
    by (auto simp: w2_def retried_def inflight_check_history safe_get_group_no_patch)
  then show "length (filter is_patch w2) = length (filter is_patch w)"
    by (simp add: list_all_iff)
qed

lemma applier_task_unfold:
  "applier_task self group_id v property_name w =
     (case retried [DatabricksError] (verify_timeout self)
             (safe_patch_group self group_id
                [\<lparr>op = ADD, path = property_name, value_p = JArr (map as_dict v)\<rparr>]
                [URN_IETF_PARAMS_SCIM_API_MESSAGES_2_0_PATCH_OP]) (w @ [Throttle 10 60]) of
        (Inl e, w1) \<Rightarrow> (Inl e, w1)
      | (Inr patched, w1) \<Rightarrow>
          retried [ValueError, DatabricksError] (verify_timeout self)
            (inflight_check self group_id v property_name) w1)"
  by (simp add: applier_task_def rate_limited_def Let_def)

lemma applier_task_calls:
  "length (filter is_patch (snd (applier_task self group_id v property_name w)))
     \<le> length (filter is_patch w) + verify_timeout self + 1
 \<and> length (filter is_get (snd (applier_task self group_id v property_name w)))
     \<le> length (filter is_get w) + verify_timeout self + 1"
proof -
  let ?ops = "[\<lparr>op = ADD, path = property_name, value_p = JArr (map as_dict v)\<rparr>]"
  let ?schemas = "[URN_IETF_PARAMS_SCIM_API_MESSAGES_2_0_PATCH_OP]"
  let ?T = "verify_timeout self"
  obtain r w1 where patch: "retried [DatabricksError] ?T
      (safe_patch_group self group_id ?ops ?schemas) (w @ [Throttle 10 60]) = (r, w1)"
    by (cases "retried [DatabricksError] ?T (safe_patch_group self group_id ?ops ?schemas) (w @ [Throttle 10 60])")
  from patch_phase_calls [where self = self and i = group_id and ops = ?ops and schemas = ?schemas
      and kinds = "[DatabricksError]" and timeout = ?T and w = "w @ [Throttle 10 60]"] patch
  have p1: "length (filter is_patch w1) \<le> length (filter is_patch w) + ?T + 1"
    and g1: "length (filter is_get w1) = length (filter is_get w)"
    by simp_all
  show ?thesis
  proof (cases r)
    case (Inl e)
    with patch p1 g1 show ?thesis by (simp add: applier_task_unfold)
  next
    case (Inr patched)
    from check_phase_calls [where self = self and i = group_id and v = v and p = property_name
        and kinds = "[ValueError, DatabricksError]" and timeout = ?T and w = w1]
    have "length (filter is_get (snd (retried [ValueError, DatabricksError] ?T
            (inflight_check self group_id v property_name) w1))) \<le> length (filter is_get w1) + ?T + 1"
      and "length (filter is_patch (snd (retried [ValueError, DatabricksError] ?T
            (inflight_check self group_id v property_name) w1))) = length (filter is_patch w1)"
      by simp_all
    with Inr patch p1 g1 show ?thesis by (simp add: applier_task_unfold)
  qed
qed


lemma retried_first_step:
  "retried kinds timeout f w =
     (case f w of
        (Inr x, w1) \<Rightarrow> (Inr x, w1)
      | (Inl e, w1) \<Rightarrow>
          if retryable kinds e \<and> 0 < timeout
          then retried_loop kinds timeout f 1 1 (w1 @ [Sleep 1])
          else (Inl e, w1))"
  unfolding retried_def by (subst retried_loop_unfold) (simp split: prod.splits sum.splits)

text \<open>
  C6. The verification timeout is 60 seconds unless the constructor is given another.
  The apply task passes its limiter once and then runs two retried calls with that
  timeout: the patch, retried on \<^verbatim>\<open>DatabricksError\<close> only, and, once the patch has
  returned, the check, retried on \<^verbatim>\<open>ValueError\<close> and on \<^verbatim>\<open>DatabricksError\<close>. A retried call
  is attempted again, after a sleep, only when the error is of a retryable kind and
  time is left; within one task neither the patch nor the read is sent more than
  timeout plus one times.
\<close>

theorem applier_task_two_retries:
  "verify_timeout (ScimSupport_init c None sys) = 60
 \<and> verify_timeout (ScimSupport_init c (Some t) sys) = t
 \<and> applier_task self group_id v property_name w =
     (case retried [DatabricksError] (verify_timeout self)
             (safe_patch_group self group_id
                [\<lparr>op = ADD, path = property_name, value_p = JArr (map as_dict v)\<rparr>]
                [URN_IETF_PARAMS_SCIM_API_MESSAGES_2_0_PATCH_OP]) (w @ [Throttle 10 60]) of
        (Inl e, w1) \<Rightarrow> (Inl e, w1)
      | (Inr patched, w1) \<Rightarrow>
          retried [ValueError, DatabricksError] (verify_timeout self)
            (inflight_check self group_id v property_name) w1)
 \<and> retryable [DatabricksError] x = isinstance x DatabricksError
 \<and> retryable [ValueError, DatabricksError] x = (isinstance x ValueError \<or> isinstance x DatabricksError)
 \<and> retried kinds timeout f w0 =
     (case f w0 of
        (Inr y, w1) \<Rightarrow> (Inr y, w1)
      | (Inl e, w1) \<Rightarrow>
          if retryable kinds e \<and> 0 < timeout
          then retried_loop kinds timeout f 1 1 (w1 @ [Sleep 1])
          else (Inl e, w1))
 \<and> length (filter is_patch (snd (applier_task self group_id v property_name w)))
     \<le> length (filter is_patch w) + verify_timeout self + 1
 \<and> length (filter is_get (snd (applier_task self group_id v property_name w)))
     \<le> length (filter is_get w) + verify_timeout self + 1"
proof -
  have "verify_timeout (ScimSupport_init c None sys) = 60"
    and "verify_timeout (ScimSupport_init c (Some t) sys) = t"
    by (simp_all add: ScimSupport_init_def default_verify_timeout_def)
  moreover have "retryable [DatabricksError] x = isinstance x DatabricksError"
    and "retryable [ValueError, DatabricksError] x = (isinstance x ValueError \<or> isinstance x DatabricksError)"
    by (simp_all add: retryable_def)
  moreover note applier_task_unfold [of self group_id v property_name w]
    retried_first_step [of kinds timeout f w0]
    applier_task_calls [of self group_id v property_name w]
  ultimately show ?thesis by blast
qed

theorem applier_task_two_retries_witness:
  "verify_timeout (scim lagging_service) = 60
 \<and> applier_task (scim lagging_service) ''G2'' [admin] ''roles'' [] =
     (Inr True,
      [Throttle 10 60,
       GroupsPatch ''G2'' (add_roles [admin]) [URN_IETF_PARAMS_SCIM_API_MESSAGES_2_0_PATCH_OP],
       Sleep 1,
       GroupsPatch ''G2'' (add_roles [admin]) [URN_IETF_PARAMS_SCIM_API_MESSAGES_2_0_PATCH_OP],
       GroupsGet ''G2'', Sleep 1, GroupsGet ''G2''])
 \<and> applier_task (scim failing_service) ''G2'' [admin] ''roles'' [] =
     (Inl (Error OtherException [Lit ''connection reset'']),
      [Throttle 10 60,
       GroupsPatch ''G2'' (add_roles [admin]) [URN_IETF_PARAMS_SCIM_API_MESSAGES_2_0_PATCH_OP]])"
proof -
  note t = applier_task_two_retries [of lagging_service None
      60 "scim lagging_service" "''G2''" "[admin]" "''roles''" "[]" "Error ValueError []"
      "[DatabricksError]" 60 "\<lambda>w. (Inr True, w)" "[]"]
  from conjunct1 [OF t] have "verify_timeout (scim lagging_service) = 60"
    by (simp add: scim_def)
  moreover have "applier_task (scim lagging_service) ''G2'' [admin] ''roles'' [] =
     (Inr True,
      [Throttle 10 60,
       GroupsPatch ''G2'' (add_roles [admin]) [URN_IETF_PARAMS_SCIM_API_MESSAGES_2_0_PATCH_OP],
       Sleep 1,
       GroupsPatch ''G2'' (add_roles [admin]) [URN_IETF_PARAMS_SCIM_API_MESSAGES_2_0_PATCH_OP],
       GroupsGet ''G2'', Sleep 1, GroupsGet ''G2''])"
    by (simp add: run_defs lagging_service_def add_roles_def a_group_def truthy_def items_def)
  moreover have "applier_task (scim failing_service) ''G2'' [admin] ''roles'' [] =
     (Inl (Error OtherException [Lit ''connection reset'']),
      [Throttle 10 60,
       GroupsPatch ''G2'' (add_roles [admin]) [URN_IETF_PARAMS_SCIM_API_MESSAGES_2_0_PATCH_OP]])"
    by (simp add: run_defs failing_service_def add_roles_def)
  ultimately show ?thesis by blast
qed

subsection \<open>The rate limits of the read and of the apply task\<close>

lemma safe_patch_group_no_throttle:
  "\<exists>es. snd (safe_patch_group self i ops schemas w) = w @ es \<and> list_all (\<lambda>ev. \<not> is_throttle ev) es"
  by (simp add: safe_patch_group_def ws_groups_patch_def split: sum.splits)

lemma inflight_check_no_throttle:
  "\<exists>es. snd (inflight_check self i v p w) = w @ es \<and> list_all (\<lambda>ev. \<not> is_throttle ev) es"
  by (simp add: inflight_check_history safe_get_group_def ws_groups_get_def split: sum.splits)

lemma applier_task_one_throttle:
  "\<exists>es. snd (applier_task self group_id v property_name w) = w @ Throttle 10 60 # es
      \<and> list_all (\<lambda>ev. \<not> is_throttle ev) es"
proof -
  let ?ops = "[\<lparr>op = ADD, path = property_name, value_p = JArr (map as_dict v)\<rparr>]"
  let ?schemas = "[URN_IETF_PARAMS_SCIM_API_MESSAGES_2_0_PATCH_OP]"
  let ?T = "verify_timeout self"
  obtain r w1 where patch: "retried [DatabricksError] ?T
      (safe_patch_group self group_id ?ops ?schemas) (w @ [Throttle 10 60]) = (r, w1)"
    by (cases "retried [DatabricksError] ?T (safe_patch_group self group_id ?ops ?schemas) (w @ [Throttle 10 60])")
  from retried_loop_events [of "safe_patch_group self group_id ?ops ?schemas" "\<lambda>ev. \<not> is_throttle ev"
      "[DatabricksError]" ?T 0 0 "w @ [Throttle 10 60]", OF safe_patch_group_no_throttle] patch
  obtain es where es: "w1 = (w @ [Throttle 10 60]) @ es" "list_all (\<lambda>ev. \<not> is_throttle ev) es"
    by (auto simp: retried_def)
  show ?thesis
  proof (cases r)
    case (Inl e)
    with patch es show ?thesis by (simp add: applier_task_unfold)
  next
    case (Inr patched)
    from retried_loop_events [of "inflight_check self group_id v property_name" "\<lambda>ev. \<not> is_throttle ev"
      "[ValueError, DatabricksError]" ?T 0 0 w1, OF inflight_check_no_throttle]
    obtain es' where es': "snd (retried [ValueError, DatabricksError] ?T
        (inflight_check self group_id v property_name) w1) = w1 @ es'"
      "list_all (\<lambda>ev. \<not> is_throttle ev) es'"
      by (auto simp: retried_def)
    have "snd (applier_task self group_id v property_name w) = w @ Throttle 10 60 # (es @ es')"
      using Inr patch es es' by (simp add: applier_task_unfold)
    moreover have "list_all (\<lambda>ev. \<not> is_throttle ev) (es @ es')"
      using es es' by simp
    ultimately show ?thesis by blast
  qed
qed

lemma get_group_with_retries_no_retry:
  assumes "groups_get (ws self) (w @ [Throttle 255 60]) i = Inl e"
    and "\<not> isinstance e InternalError"
  shows "get_group_with_retries L self i w = (Inl e, w @ [Throttle 255 60, GroupsGet i])"
  using assms
  by (simp add: get_group_with_retries_def retried_first_step rate_limited_def ws_groups_get_def
      retryable_def)

lemma rate_limited_fun:
  "rate_limited m b f = (\<lambda>w. f (w @ [Throttle m b]))"
  by (rule ext) (simp add: rate_limited_def)

lemma hd_get_attempts: "hd (get_attempts i ns) = Throttle 255 60"
  by (cases ns) simp_all

text \<open>
  C9. Every attempt of the retried \<^verbatim>\<open>get\<close> passes a limiter of 255 requests per 60
  seconds before it calls the service, and an apply task passes a limiter of 10
  requests per 60 seconds, once, before anything else: the read's ceiling is the higher
  one, over the same window. The read is retried on \<^verbatim>\<open>InternalError\<close> only: any other
  error comes out after the first attempt.
\<close>

theorem read_and_patch_rate_limits:
  "(\<exists>ns. snd (get_group_with_retries L self i w) = w @ get_attempts i ns
        \<and> hd (get_attempts i ns) = Throttle 255 60
        \<and> max_requests (Throttle 10 60) < max_requests (hd (get_attempts i ns))
        \<and> burst_period_seconds (hd (get_attempts i ns)) = burst_period_seconds (Throttle 10 60))
 \<and> (\<exists>es. snd (applier_task self group_id v property_name w) = w @ Throttle 10 60 # es
        \<and> list_all (\<lambda>ev. \<not> is_throttle ev) es)
 \<and> get_group_with_retries L self i w =
      retried [InternalError] (retried_default_timeout L)
        (\<lambda>w. ws_groups_get (ws self) i (w @ [Throttle 255 60])) w
 \<and> retryable [InternalError] x = isinstance x InternalError
 \<and> (groups_get (ws self) (w @ [Throttle 255 60]) i = Inl e \<and> \<not> isinstance e InternalError \<longrightarrow>
       get_group_with_retries L self i w = (Inl e, w @ [Throttle 255 60, GroupsGet i]))"
proof -
  from get_group_with_retries_events [of L self i w]
  obtain ns where "snd (get_group_with_retries L self i w) = w @ get_attempts i ns" ..
  then have "\<exists>ns. snd (get_group_with_retries L self i w) = w @ get_attempts i ns
        \<and> hd (get_attempts i ns) = Throttle 255 60
        \<and> max_requests (Throttle 10 60) < max_requests (hd (get_attempts i ns))
        \<and> burst_period_seconds (hd (get_attempts i ns)) = burst_period_seconds (Throttle 10 60)"
    by (intro exI [of _ ns]) (simp add: hd_get_attempts)
  moreover note applier_task_one_throttle [of self group_id v property_name w]
  moreover have "get_group_with_retries L self i w =
      retried [InternalError] (retried_default_timeout L)
        (\<lambda>w. ws_groups_get (ws self) i (w @ [Throttle 255 60])) w"
    by (simp add: get_group_with_retries_def rate_limited_fun)
  moreover have "retryable [InternalError] x = isinstance x InternalError"
    by (simp add: retryable_def)
  moreover have "groups_get (ws self) (w @ [Throttle 255 60]) i = Inl e \<and> \<not> isinstance e InternalError \<longrightarrow>
       get_group_with_retries L self i w = (Inl e, w @ [Throttle 255 60, GroupsGet i])"
    by (auto intro: get_group_with_retries_no_retry)
  ultimately show ?thesis by blast
qed

theorem read_and_patch_rate_limits_witness:
  "groups_get (ws (scim failing_service)) [Throttle 255 60] ''G1'' = Inl (Error PermissionDenied [Lit ''forbidden''])
 \<and> \<not> isinstance (Error PermissionDenied [Lit ''forbidden'']) InternalError
 \<and> get_group_with_retries json_table (scim failing_service) ''G1'' [] =
     (Inl (Error PermissionDenied [Lit ''forbidden'']), [Throttle 255 60, GroupsGet ''G1''])
 \<and> get_group_with_retries json_table (scim flaky_service) ''G1'' [] =
     (Inr (a_group ''G1'' ''analysts'' (Some [admin]) None),
      [Throttle 255 60, GroupsGet ''G1'', Sleep 1, Throttle 255 60, GroupsGet ''G1''])"
proof -
  have g: "groups_get (ws (scim failing_service)) ([] @ [Throttle 255 60]) ''G1'' =
      Inl (Error PermissionDenied [Lit ''forbidden''])
    \<and> \<not> isinstance (Error PermissionDenied [Lit ''forbidden'']) InternalError"
    by (simp add: scim_def ScimSupport_init_def failing_service_def)
  note t = read_and_patch_rate_limits [of json_table "scim failing_service" "''G1''" "[]"
      "''G2''" "[admin]" "''roles''" "Error ValueError []" "Error PermissionDenied [Lit ''forbidden'']"]
  from t have imp: "groups_get (ws (scim failing_service)) ([] @ [Throttle 255 60]) ''G1'' =
        Inl (Error PermissionDenied [Lit ''forbidden''])
      \<and> \<not> isinstance (Error PermissionDenied [Lit ''forbidden'']) InternalError \<longrightarrow>
      get_group_with_retries json_table (scim failing_service) ''G1'' [] =
        (Inl (Error PermissionDenied [Lit ''forbidden'']), [] @ [Throttle 255 60, GroupsGet ''G1''])"
    by (elim conjE)
  from mp [OF imp g] have "get_group_with_retries json_table (scim failing_service) ''G1'' [] =
     (Inl (Error PermissionDenied [Lit ''forbidden'']), [Throttle 255 60, GroupsGet ''G1''])"
    by simp
  moreover have "get_group_with_retries json_table (scim flaky_service) ''G1'' [] =
     (Inr (a_group ''G1'' ''analysts'' (Some [admin]) None),
      [Throttle 255 60, GroupsGet ''G1'', Sleep 1, Throttle 255 60, GroupsGet ''G1''])"
    by (simp add: get_group_with_retries_def rate_limited_def ws_groups_get_def run_defs
        flaky_service_def json_table_def)
  ultimately show ?thesis using g by simp
qed

end
